theory Spec2Isabelle
  imports Complex_Main "HOL-Library.AList"
begin

section \<open>Data model of \<^verbatim>\<open>main.py\<close>\<close>

text \<open>
  The bot keeps three JSON documents in memory as module globals: \<^verbatim>\<open>vps_data\<close>
  (owner id to list of instance dicts), \<^verbatim>\<open>admin_data\<close> (a dict with the key
  \<^verbatim>\<open>"admins"\<close>) and \<^verbatim>\<open>port_data\<close> (the keys \<^verbatim>\<open>"users"\<close> and
  \<^verbatim>\<open>"active_ports"\<close>). Python dicts keep insertion order, so they are association
  lists here. A key that the code reads with \<^verbatim>\<open>.get\<close> or tests with \<^verbatim>\<open>in\<close> may be
  absent: such a field is an \<open>option\<close>.
\<close>

record susp_entry =
  time :: string
  reason :: string
  by_actor :: string  \<comment> \<open>the key \<^verbatim>\<open>'by'\<close>\<close>

record vps =
  container_name :: string
  ram :: string
  cpu :: string
  storage :: string
  config :: string
  status :: "string option"
  suspended :: "bool option"
  suspension_history :: "susp_entry list option"
  created_at :: string
  shared_with :: "string list"

record admin_registry =
  admins :: "string list option"

record port_info =
  container :: string
  internal_port :: int
  host_port :: int

record port_table =
  users :: "(string \<times> int option) list"  \<comment> \<open>user id to the value of \<^verbatim>\<open>"slots"\<close>\<close>
  active_ports :: "(string \<times> port_info list) list"

text \<open>Values read from the environment at start-up.\<close>

record settings =
  MAIN_ADMIN_ID :: int
  DEFAULT_STORAGE_POOL :: string
  CPU_THRESHOLD :: int
  RAM_THRESHOLD :: int

text \<open>
  What \<^verbatim>\<open>open(...)\<close> followed by \<^verbatim>\<open>json.load\<close> does with a file: it raises
  \<^verbatim>\<open>FileNotFoundError\<close>, raises \<^verbatim>\<open>json.JSONDecodeError\<close>, raises something else
  (a permission error, undecodable bytes), or returns the document. The three files on
  disk are described by what reading them gives.
\<close>

datatype 'a read_result = FileNotFoundError | JSONDecodeError | OtherError string | Loaded 'a

record files =
  vps_file :: "(string \<times> vps list) list read_result"
  admin_file :: "admin_registry read_result"
  port_file :: "port_table read_result"

datatype log_entry = LogInfo string | LogWarning string | LogError string

text \<open>
  How a command given to \<^verbatim>\<open>execute_RTC\<close> can fail: an exception with a text (a non-zero
  exit with its error output, or an error starting the process), or the time limit.
\<close>

datatype rtc_error = Raised string | TimedOut

datatype exec_result = Succeeded | Failed rtc_error

text \<open>
  The process state: the three globals, the flag and the task of the host monitor, and
  what the process has done to the outside so far (commands given to \<^verbatim>\<open>execute_RTC\<close>
  with their outcome, containers sampled, files written, log lines), oldest first.
\<close>

record world =
  vps_data :: "(string \<times> vps list) list"
  admin_data :: admin_registry
  port_data :: port_table
  cpu_monitor_active :: bool
  cpu_monitor_task :: bool  \<comment> \<open>the coroutine \<^verbatim>\<open>cpu_monitor()\<close> is still inside its \<^verbatim>\<open>while\<close>\<close>
  rtc_calls :: "(string \<times> exec_result) list"
  sampled :: "(string \<times> string) list"  \<comment> \<open>where a sampling command ran, and which one\<close>
  disk :: files
  save_calls :: nat
  clock_reads :: nat
  log :: "log_entry list"

text \<open>
  What the outside answers. The \<open>n\<close>-th command given to \<^verbatim>\<open>execute_RTC\<close> succeeds or
  raises; the \<open>n\<close>-th call of \<^verbatim>\<open>save_data\<close> writes all three files or raises, with the
  text of the exception, while writing one of them; the \<open>n\<close>-th reading of \<^verbatim>\<open>datetime.now().isoformat()\<close> gives a
  string; the host sampler gives a percentage each time it runs (numbered by the samplings
  done before it) and the instance samplers give one for a container (a finite float is a
  rational, and Python compares a float with an int exactly); \<open>fmt1\<close> is the
  \<^verbatim>\<open>:.1f\<close> formatting.
\<close>

datatype save_outcome = WriteOk | FailVps string | FailAdmin string | FailPort string

record env =
  rtc :: "nat \<Rightarrow> string \<Rightarrow> exec_result"
  fs :: "nat \<Rightarrow> save_outcome"
  now :: "nat \<Rightarrow> string"
  get_cpu_usage :: "nat \<Rightarrow> rat"
  get_container_cpu_pct :: "string \<Rightarrow> rat"
  get_container_ram_pct :: "string \<Rightarrow> rat"
  fmt1 :: "rat \<Rightarrow> string"

text \<open>
  A message sent with \<^verbatim>\<open>ctx.send\<close>: the kind of embed and its title. Descriptions and
  fields are display text only. Calls into the chat platform (sending, roles, direct
  messages) are taken to return normally, and a command runs to its end before the next
  one starts.
\<close>

datatype embed =
  create_embed string
  | create_success_embed string
  | create_error_embed string
  | create_info_embed string
  | create_warning_embed string

section \<open>Python's \<^verbatim>\<open>str\<close> on integers\<close>

fun digits :: "nat \<Rightarrow> string" where
  "digits n =
     (if n < 10 then [''0123456789'' ! n]
      else digits (n div 10) @ [''0123456789'' ! (n mod 10)])"

declare digits.simps [simp del]

definition str :: "int \<Rightarrow> string" where
  "str i = (if i < 0 then CHR ''-'' # digits (nat (- i)) else digits (nat i))"

section \<open>Loading and saving\<close>

datatype py_error = Uncaught string

definition load_vps_data ::
  "(string \<times> vps list) list read_result \<Rightarrow> log_entry list \<times> (py_error + (string \<times> vps list) list)" where
  "load_vps_data r =
     (case r of
        Loaded d \<Rightarrow> ([], Inr d)
      | OtherError e \<Rightarrow> ([], Inl (Uncaught e))
      | _ \<Rightarrow> ([LogWarning ''vps_data.json not found or corrupted, initializing empty data''], Inr []))"

definition load_admin_data ::
  "settings \<Rightarrow> admin_registry read_result \<Rightarrow> log_entry list \<times> (py_error + admin_registry)" where
  "load_admin_data cfg r =
     (case r of
        Loaded d \<Rightarrow> ([], Inr d)
      | OtherError e \<Rightarrow> ([], Inl (Uncaught e))
      | _ \<Rightarrow> ([LogWarning ''admin_data.json not found or corrupted, initializing with main admin''],
              Inr \<lparr>admins = Some [str (MAIN_ADMIN_ID cfg)]\<rparr>))"

definition load_port_data ::
  "port_table read_result \<Rightarrow> log_entry list \<times> (py_error + port_table)" where
  "load_port_data r =
     (case r of
        Loaded d \<Rightarrow> ([], Inr d)
      | OtherError e \<Rightarrow> ([], Inl (Uncaught e))
      | _ \<Rightarrow> ([LogWarning ''port_data.json not found or corrupted, initializing empty data''],
              Inr \<lparr>users = [], active_ports = []\<rparr>))"

text \<open>
  \<^verbatim>\<open>save_data\<close> writes each collection to a temporary file and renames it into place,
  in the order instances, admins, ports, inside one \<^verbatim>\<open>try\<close>. An exception leaves the
  files of the collections not yet reached as they were; the handler logs it and the
  function returns normally.
\<close>

definition save_data :: "env \<Rightarrow> world \<Rightarrow> world" where
  "save_data e w =
     (let d = disk w;
          d1 = d\<lparr>vps_file := Loaded (vps_data w)\<rparr>;
          d2 = d1\<lparr>admin_file := Loaded (admin_data w)\<rparr>;
          d3 = d2\<lparr>port_file := Loaded (port_data w)\<rparr>;
          w' = w\<lparr>save_calls := Suc (save_calls w)\<rparr>
      in case fs e (save_calls w) of
           WriteOk \<Rightarrow> w'\<lparr>disk := d3, log := log w @ [LogInfo ''Data saved successfully'']\<rparr>
         | FailVps x \<Rightarrow> w'\<lparr>log := log w @ [LogError (''Error saving data: '' @ x)]\<rparr>
         | FailAdmin x \<Rightarrow> w'\<lparr>disk := d1, log := log w @ [LogError (''Error saving data: '' @ x)]\<rparr>
         | FailPort x \<Rightarrow> w'\<lparr>disk := d2, log := log w @ [LogError (''Error saving data: '' @ x)]\<rparr>)"

text \<open>
  Start-up: the three loads at module level, the flag \<^verbatim>\<open>cpu_monitor_active = True\<close>, and
  the two monitor tasks that \<^verbatim>\<open>on_ready\<close> creates. An exception of a load ends the
  process.
\<close>

definition startup :: "settings \<Rightarrow> files \<Rightarrow> py_error + world" where
  "startup cfg d =
     (case load_vps_data (vps_file d) of
        (_, Inl err) \<Rightarrow> Inl err
      | (l1, Inr v) \<Rightarrow>
     (case load_admin_data cfg (admin_file d) of
        (_, Inl err) \<Rightarrow> Inl err
      | (l2, Inr a) \<Rightarrow>
     (case load_port_data (port_file d) of
        (_, Inl err) \<Rightarrow> Inl err
      | (l3, Inr p) \<Rightarrow>
          Inr \<lparr>vps_data = v, admin_data = a, port_data = p,
               cpu_monitor_active = True, cpu_monitor_task = True,
               rtc_calls = [], sampled = [], disk = d, save_calls = 0, clock_reads = 0,
               log = l1 @ l2 @ l3\<rparr>)))"

definition no_files :: files where
  "no_files = \<lparr>vps_file = FileNotFoundError, admin_file = FileNotFoundError,
                port_file = FileNotFoundError\<rparr>"

section \<open>The command executor\<close>

text \<open>
  The text of the exception that \<^verbatim>\<open>execute_RTC\<close> raises, and the line it logs before
  raising. Every call in this file uses the default time limit of 120 seconds.
\<close>

definition error_text :: "rtc_error \<Rightarrow> string" where
  "error_text x = (case x of Raised msg \<Rightarrow> msg | TimedOut \<Rightarrow> ''Command timed out after 120 seconds'')"

definition error_line :: "string \<Rightarrow> rtc_error \<Rightarrow> log_entry" where
  "error_line command x =
     (case x of
        Raised msg \<Rightarrow> LogError (''RTC Error: '' @ command @ '' - '' @ msg)
      | TimedOut \<Rightarrow> LogError (''RTC command timed out: '' @ command))"

text \<open>
  \<^verbatim>\<open>execute_RTC\<close> returns the output or raises; on raising it logs the error first.
  The result \<open>Inl msg\<close> is the exception with its text.
\<close>

definition execute_RTC :: "env \<Rightarrow> string \<Rightarrow> world \<Rightarrow> (string + unit) \<times> world" where
  "execute_RTC e command w =
     (let r = rtc e (length (rtc_calls w)) command;
          w' = w\<lparr>rtc_calls := rtc_calls w @ [(command, r)]\<rparr>
      in case r of
           Succeeded \<Rightarrow> (Inr (), w')
         | Failed x \<Rightarrow> (Inl (error_text x), w'\<lparr>log := log w @ [error_line command x]\<rparr>))"

text \<open>Consecutive \<^verbatim>\<open>await execute_RTC(...)\<close> statements: the first exception ends them.\<close>

fun execute_all :: "env \<Rightarrow> string list \<Rightarrow> world \<Rightarrow> (string + unit) \<times> world" where
  "execute_all e [] w = (Inr (), w)"
| "execute_all e (c # cs) w =
     (case execute_RTC e c w of
        (Inl msg, w') \<Rightarrow> (Inl msg, w')
      | (Inr _, w') \<Rightarrow> execute_all e cs w')"

section \<open>Administrators\<close>

definition admins_get :: "world \<Rightarrow> string list" where
  \<comment> \<open>\<^verbatim>\<open>admin_data.get("admins", [])\<close>\<close>
  "admins_get w = (case admins (admin_data w) of None \<Rightarrow> [] | Some l \<Rightarrow> l)"

definition is_admin :: "settings \<Rightarrow> world \<Rightarrow> int \<Rightarrow> bool" where
  "is_admin cfg w author =
     (str author = str (MAIN_ADMIN_ID cfg) \<or> str author \<in> set (admins_get w))"

definition admin_add :: "settings \<Rightarrow> env \<Rightarrow> int \<Rightarrow> world \<Rightarrow> embed list \<times> world" where
  "admin_add cfg e user w =
     (let user_id = str user in
      if user_id = str (MAIN_ADMIN_ID cfg) then ([create_error_embed ''Already Admin''], w)
      else if user_id \<in> set (admins_get w) then ([create_error_embed ''Already Admin''], w)
      else
        let w1 = w\<lparr>admin_data := (admin_data w)\<lparr>admins := Some (admins_get w @ [user_id])\<rparr>\<rparr>
        in ([create_success_embed ''Admin Added''], save_data e w1))"

definition admin_remove :: "settings \<Rightarrow> env \<Rightarrow> int \<Rightarrow> world \<Rightarrow> embed list \<times> world" where
  "admin_remove cfg e user w =
     (let user_id = str user in
      if user_id = str (MAIN_ADMIN_ID cfg) then ([create_error_embed ''Cannot Remove''], w)
      else if user_id \<notin> set (admins_get w) then ([create_error_embed ''Not Admin''], w)
      else
        let w1 = w\<lparr>admin_data := (admin_data w)\<lparr>admins := Some (remove1 user_id (admins_get w))\<rparr>\<rparr>
        in ([create_success_embed ''Admin Removed''], save_data e w1))"

text \<open>A sequence of administrator commands, each run to its end before the next.\<close>

datatype admin_call = AdminAdd int | AdminRemove int

fun admin_step :: "settings \<Rightarrow> env \<Rightarrow> admin_call \<Rightarrow> world \<Rightarrow> world" where
  "admin_step cfg e (AdminAdd u) w = snd (admin_add cfg e u w)"
| "admin_step cfg e (AdminRemove u) w = snd (admin_remove cfg e u w)"

fun admin_run :: "settings \<Rightarrow> env \<Rightarrow> admin_call list \<Rightarrow> world \<Rightarrow> world" where
  "admin_run cfg e [] w = w"
| "admin_run cfg e (c # cs) w = admin_run cfg e cs (admin_step cfg e c w)"

text \<open>The values the source falls back to when the environment sets nothing.\<close>

definition default_settings :: settings where
  "default_settings =
     \<lparr>MAIN_ADMIN_ID = 1210291131301101618, DEFAULT_STORAGE_POOL = ''default'',
      CPU_THRESHOLD = 90, RAM_THRESHOLD = 90\<rparr>"


section \<open>Port forwards\<close>

definition used_ports :: "port_table \<Rightarrow> int list" where
  "used_ports pd = concat (map (\<lambda>(_, user_ports). map host_port user_ports) (active_ports pd))"

text \<open>The loop \<^verbatim>\<open>for p in range(10000, 20000)\<close> of \<^verbatim>\<open>get_next_available_port\<close>, from \<open>p\<close> on.\<close>

function first_free :: "int list \<Rightarrow> int \<Rightarrow> int option" where
  "first_free used p =
     (if p < 20000 then (if p \<notin> set used then Some p else first_free used (p + 1)) else None)"
  by pat_completeness auto
termination
  by (relation "measure (\<lambda>(used, p). nat (20000 - p))") auto

declare first_free.simps [simp del]

definition get_next_available_port :: "port_table \<Rightarrow> int option" where
  "get_next_available_port pd = first_free (used_ports pd) 10000"

definition vps_get :: "world \<Rightarrow> string \<Rightarrow> vps list" where
  \<comment> \<open>\<^verbatim>\<open>vps_data.get(user_id, [])\<close>\<close>
  "vps_get w user_id = (case map_of (vps_data w) user_id of None \<Rightarrow> [] | Some l \<Rightarrow> l)"

definition slots_get :: "world \<Rightarrow> string \<Rightarrow> int" where
  \<comment> \<open>\<^verbatim>\<open>port_data["users"].get(user_id, {}).get("slots", 0)\<close>\<close>
  "slots_get w user_id =
     (case map_of (users (port_data w)) user_id of
        None \<Rightarrow> 0 | Some None \<Rightarrow> 0 | Some (Some n) \<Rightarrow> n)"

definition active_get :: "world \<Rightarrow> string \<Rightarrow> port_info list" where
  \<comment> \<open>\<^verbatim>\<open>port_data["active_ports"].get(user_id, [])\<close>\<close>
  "active_get w user_id =
     (case map_of (active_ports (port_data w)) user_id of None \<Rightarrow> [] | Some l \<Rightarrow> l)"

definition set_active :: "string \<Rightarrow> port_info list \<Rightarrow> world \<Rightarrow> world" where
  "set_active user_id l w =
     w\<lparr>port_data := (port_data w)\<lparr>active_ports := AList.update user_id l (active_ports (port_data w))\<rparr>\<rparr>"

definition add_tcp :: "string \<Rightarrow> int \<Rightarrow> int \<Rightarrow> string" where
  "add_tcp cn hp arg2 =
     ''RTC config device add '' @ cn @ '' port-'' @ str hp
       @ ''-tcp proxy listen=tcp:0.0.0.0:'' @ str hp @ '' connect=tcp:127.0.0.1:'' @ str arg2"

definition add_udp :: "string \<Rightarrow> int \<Rightarrow> int \<Rightarrow> string" where
  "add_udp cn hp arg2 =
     ''RTC config device add '' @ cn @ '' port-'' @ str hp
       @ ''-udp proxy listen=udp:0.0.0.0:'' @ str hp @ '' connect=udp:127.0.0.1:'' @ str arg2"

definition remove_tcp :: "string \<Rightarrow> int \<Rightarrow> string" where
  "remove_tcp cn arg1 = ''RTC config device remove '' @ cn @ '' port-'' @ str arg1 @ ''-tcp''"

definition remove_udp :: "string \<Rightarrow> int \<Rightarrow> string" where
  "remove_udp cn arg1 = ''RTC config device remove '' @ cn @ '' port-'' @ str arg1 @ ''-udp''"

text \<open>The branch \<^verbatim>\<open>action == "add"\<close> of \<^verbatim>\<open>ports_command\<close>.\<close>

definition ports_add :: "env \<Rightarrow> int \<Rightarrow> int option \<Rightarrow> int option \<Rightarrow> world \<Rightarrow> embed list \<times> world" where
  "ports_add e author a1 a2 w =
     (let user_id = str author in
      case (a1, a2) of
        (None, _) \<Rightarrow> ([create_error_embed ''Usage''], w)
      | (_, None) \<Rightarrow> ([create_error_embed ''Usage''], w)
      | (Some arg1, Some arg2) \<Rightarrow>
          let vps_list = vps_get w user_id in
          if arg1 < 1 \<or> arg1 > int (length vps_list) then ([create_error_embed ''Invalid VPS''], w)
          else
            let cn = container_name (vps_list ! nat (arg1 - 1));
                slots = slots_get w user_id;
                active = active_get w user_id
            in
            if int (length active) \<ge> slots then ([create_error_embed ''No Slots''], w)
            else
              case get_next_available_port (port_data w) of
                None \<Rightarrow> ([create_error_embed ''System Error''], w)
              | Some hp \<Rightarrow>
                  if hp = 0 then ([create_error_embed ''System Error''], w)
                  else
                    case execute_all e [add_tcp cn hp arg2, add_udp cn hp arg2] w of
                      (Inl msg, w1) \<Rightarrow>
                        ([create_info_embed ''Adding Port Forward'', create_error_embed ''Failed''], w1)
                    | (Inr _, w1) \<Rightarrow>
                        let w2 = set_active user_id
                                   (active_get w1 user_id
                                      @ [\<lparr>container = cn, internal_port = arg2, host_port = hp\<rparr>]) w1
                        in ([create_info_embed ''Adding Port Forward'',
                             create_success_embed ''Port Forward Added''], save_data e w2))"

text \<open>The branch \<^verbatim>\<open>action == "remove"\<close>.\<close>

definition ports_remove :: "env \<Rightarrow> int \<Rightarrow> int option \<Rightarrow> world \<Rightarrow> embed list \<times> world" where
  "ports_remove e author a1 w =
     (let user_id = str author in
      case a1 of
        None \<Rightarrow> ([create_error_embed ''Usage''], w)
      | Some arg1 \<Rightarrow>
          let active = active_get w user_id in
          case find (\<lambda>p. host_port p = arg1) active of
            None \<Rightarrow> ([create_error_embed ''Not Found''], w)
          | Some found \<Rightarrow>
              case execute_all e [remove_tcp (container found) arg1, remove_udp (container found) arg1] w of
                (Inl msg, w1) \<Rightarrow> ([create_error_embed ''Failed''], w1)
              | (Inr _, w1) \<Rightarrow>
                  let w2 = set_active user_id (remove1 found (active_get w1 user_id)) w1
                  in ([create_success_embed ''Port Forward Removed''], save_data e w2))"

text \<open>
  \<^verbatim>\<open>ports_command\<close>. The title of the listing starts with a plug emoji, left out here;
  an action other than the three sends nothing.
\<close>

definition ports_command ::
  "env \<Rightarrow> int \<Rightarrow> string \<Rightarrow> int option \<Rightarrow> int option \<Rightarrow> world \<Rightarrow> embed list \<times> world" where
  "ports_command e author action a1 a2 w =
     (if action = ''list'' then ([create_info_embed ''Port Forwarding''], w)
      else if action = ''add'' then ports_add e author a1 a2 w
      else if action = ''remove'' then ports_remove e author a1 w
      else ([], w))"

text \<open>
  \<^verbatim>\<open>ports_add_user\<close>. An entry of \<^verbatim>\<open>"users"\<close> without the key \<^verbatim>\<open>"slots"\<close> makes
  \<^verbatim>\<open>+=\<close> raise \<^verbatim>\<open>KeyError\<close>, which \<^verbatim>\<open>on_command_error\<close> logs and answers.
\<close>

definition ports_add_user :: "env \<Rightarrow> int \<Rightarrow> int \<Rightarrow> world \<Rightarrow> embed list \<times> world" where
  "ports_add_user e amount user w =
     (let user_id = str user;
          set_slots = (\<lambda>n. w\<lparr>port_data := (port_data w)\<lparr>users :=
                          AList.update user_id (Some n) (users (port_data w))\<rparr>\<rparr>)
      in case map_of (users (port_data w)) user_id of
           None \<Rightarrow> ([create_success_embed ''Slots Allocated''], save_data e (set_slots (0 + amount)))
         | Some None \<Rightarrow>
             ([create_error_embed ''System Error''], w\<lparr>log := log w @ [LogError ''Command error'']\<rparr>)
         | Some (Some n) \<Rightarrow>
             ([create_success_embed ''Slots Allocated''], save_data e (set_slots (n + amount))))"

text \<open>A sequence of \<^verbatim>\<open>!ports\<close> commands by any users, each run to its end before the next.\<close>

datatype ports_call = Ports int string "int option" "int option"

fun ports_run :: "env \<Rightarrow> ports_call list \<Rightarrow> world \<Rightarrow> world" where
  "ports_run e [] w = w"
| "ports_run e (Ports author action a1 a2 # cs) w =
     ports_run e cs (snd (ports_command e author action a1 a2 w))"

definition in_range :: "int \<Rightarrow> bool" where
  "in_range p = (10000 \<le> p \<and> p < 20000)"

definition ports_inv :: "port_table \<Rightarrow> bool" where
  "ports_inv pd = (distinct (used_ports pd) \<and> list_all in_range (used_ports pd))"

section \<open>Creating and deleting instances\<close>

definition new_container_name :: "string \<Rightarrow> int \<Rightarrow> string" where
  \<comment> \<open>\<^verbatim>\<open>f"RathamCloud-vps-{user_id}-{vps_count}"\<close>\<close>
  "new_container_name user_id vps_count = ''RathamCloud-vps-'' @ user_id @ ''-'' @ str vps_count"

text \<open>The five commands of \<^verbatim>\<open>create_vps\<close>, in the order they are awaited.\<close>

definition create_commands :: "settings \<Rightarrow> string \<Rightarrow> int \<Rightarrow> int \<Rightarrow> int \<Rightarrow> string list" where
  "create_commands cfg cn ram_gb cpu_cores disk_gb =
     (let ram_mb = ram_gb * 1024 in
      [''RTC init ubuntu:22.04 '' @ cn @ '' --storage '' @ DEFAULT_STORAGE_POOL cfg,
       ''RTC config set '' @ cn @ '' limits.memory '' @ str ram_mb @ ''MB'',
       ''RTC config set '' @ cn @ '' limits.cpu '' @ str cpu_cores,
       ''RTC config device set '' @ cn @ '' root size '' @ str disk_gb @ ''GB'',
       ''RTC start '' @ cn])"

text \<open>The dict \<^verbatim>\<open>vps_info\<close>; \<open>t\<close> is \<^verbatim>\<open>datetime.now().isoformat()\<close>.\<close>

definition vps_info :: "string \<Rightarrow> int \<Rightarrow> int \<Rightarrow> int \<Rightarrow> string \<Rightarrow> vps" where
  "vps_info cn ram_gb cpu_cores disk_gb t =
     (let config_str = str ram_gb @ ''GB RAM / '' @ str cpu_cores @ '' CPU / '' @ str disk_gb @ ''GB Disk''
      in \<lparr>container_name = cn, ram = str ram_gb @ ''GB'', cpu = str cpu_cores,
          storage = str disk_gb @ ''GB'', config = config_str,
          status = Some ''running'', suspended = Some False, suspension_history = Some [],
          created_at = t, shared_with = []\<rparr>)"

definition create_vps ::
  "settings \<Rightarrow> env \<Rightarrow> int \<Rightarrow> int \<Rightarrow> int \<Rightarrow> int \<Rightarrow> world \<Rightarrow> embed list \<times> world" where
  "create_vps cfg e ram_gb cpu_cores disk_gb user w =
     (if ram_gb \<le> 0 \<or> cpu_cores \<le> 0 \<or> disk_gb \<le> 0 then ([create_error_embed ''Invalid Specs''], w)
      else
        let user_id = str user;
            w0 = (case map_of (vps_data w) user_id of
                    None \<Rightarrow> w\<lparr>vps_data := AList.update user_id [] (vps_data w)\<rparr>
                  | Some _ \<Rightarrow> w);
            vps_count = int (length (vps_get w0 user_id)) + 1;
            cn = new_container_name user_id vps_count
        in case execute_all e (create_commands cfg cn ram_gb cpu_cores disk_gb) w0 of
             (Inl msg, w1) \<Rightarrow>
               ([create_info_embed ''Creating RathamCloud VPS'', create_error_embed ''Creation Failed''], w1)
           | (Inr _, w1) \<Rightarrow>
               let w2 = w1\<lparr>vps_data :=
                             AList.update user_id
                               (vps_get w1 user_id
                                  @ [vps_info cn ram_gb cpu_cores disk_gb (now e (clock_reads w1))])
                               (vps_data w1),
                           clock_reads := Suc (clock_reads w1)\<rparr>
               in ([create_info_embed ''Creating RathamCloud VPS'',
                    create_success_embed ''RathamCloud VPS Created Successfully''], save_data e w2))"

text \<open>
  \<^verbatim>\<open>delete_vps\<close>. A failure of the forced stop is ignored; \<^verbatim>\<open>del vps_data[user_id][n - 1]\<close>
  follows the forced delete, and an owner left with no instance loses the key.
\<close>

definition delete_vps :: "env \<Rightarrow> int \<Rightarrow> int \<Rightarrow> world \<Rightarrow> embed list \<times> world" where
  "delete_vps e user vps_number w =
     (let user_id = str user in
      if map_of (vps_data w) user_id = None \<or> vps_number < 1
         \<or> vps_number > int (length (vps_get w user_id))
      then ([create_error_embed ''Invalid VPS''], w)
      else
        let cn = container_name (vps_get w user_id ! nat (vps_number - 1));
            w1 = snd (execute_RTC e (''RTC stop '' @ cn @ '' --force'') w)
        in case execute_RTC e (''RTC delete '' @ cn @ '' --force'') w1 of
             (Inl msg, w2) \<Rightarrow>
               ([create_info_embed ''Deleting RathamCloud VPS'', create_error_embed ''Deletion Failed''], w2)
           | (Inr _, w2) \<Rightarrow>
               let l = vps_get w2 user_id;
                   l' = take (nat (vps_number - 1)) l @ drop (nat vps_number) l;
                   w3 = (if l' = [] then w2\<lparr>vps_data := AList.delete user_id (vps_data w2)\<rparr>
                         else w2\<lparr>vps_data := AList.update user_id l' (vps_data w2)\<rparr>)
               in ([create_info_embed ''Deleting RathamCloud VPS'',
                    create_success_embed ''RathamCloud VPS Deleted Successfully''], save_data e w3))"

section \<open>The instance monitor\<close>

text \<open>
  \<^verbatim>\<open>vps_monitor\<close> walks copies of the owner list and of each owner's instance list, and
  changes the instance dicts in place. An instance is named here by its position: owner
  number \<open>i\<close>, instance number \<open>j\<close>.
\<close>

definition vps_at :: "world \<Rightarrow> nat \<times> nat \<Rightarrow> vps option" where
  "vps_at w p =
     (if fst p < length (vps_data w) \<and> snd p < length (snd (vps_data w ! fst p))
      then Some (snd (vps_data w ! fst p) ! snd p) else None)"

definition put_vps :: "nat \<times> nat \<Rightarrow> vps \<Rightarrow> world \<Rightarrow> world" where
  "put_vps p v w =
     w\<lparr>vps_data := (vps_data w)[fst p := (fst (vps_data w ! fst p),
                                          (snd (vps_data w ! fst p))[snd p := v])]\<rparr>"

definition suspension_reason :: "settings \<Rightarrow> env \<Rightarrow> rat \<Rightarrow> rat \<Rightarrow> string" where
  "suspension_reason cfg e c r =
     ''High resource usage: CPU '' @ fmt1 e c @ ''%, RAM '' @ fmt1 e r @ ''% (threshold: ''
       @ str (CPU_THRESHOLD cfg) @ ''% CPU / '' @ str (RAM_THRESHOLD cfg) @ ''% RAM)''"

definition history_get :: "vps \<Rightarrow> susp_entry list" where
  "history_get v = (case suspension_history v of None \<Rightarrow> [] | Some h \<Rightarrow> h)"

definition suspend_auto :: "string \<Rightarrow> string \<Rightarrow> vps \<Rightarrow> vps" where
  "suspend_auto t why v =
     v\<lparr>status := Some ''suspended'', suspended := Some True,
       suspension_history :=
         Some (history_get v @ [\<lparr>time = t, reason = why, by_actor = ''RathamCloud Auto-System''\<rparr>])\<rparr>"

definition monitored :: "vps \<Rightarrow> bool" where
  \<comment> \<open>\<^verbatim>\<open>vps.get('status') == 'running' and not vps.get('suspended', False)\<close>\<close>
  "monitored v = (status v = Some ''running'' \<and> suspended v \<noteq> Some True)"

text \<open>The body of the inner loop for the instance at one position.\<close>

definition monitor_vps :: "settings \<Rightarrow> env \<Rightarrow> nat \<times> nat \<Rightarrow> world \<Rightarrow> world" where
  "monitor_vps cfg e p w =
     (case vps_at w p of
        None \<Rightarrow> w
      | Some v \<Rightarrow>
          if monitored v then
            let cn = container_name v;
                c = get_container_cpu_pct e cn;
                r = get_container_ram_pct e cn;
                w0 = w\<lparr>sampled := sampled w @ [(cn, ''top''), (cn, ''free'')]\<rparr>
            in if c > of_int (CPU_THRESHOLD cfg) \<or> r > of_int (RAM_THRESHOLD cfg) then
                 let why = suspension_reason cfg e c r;
                     w0' = w0\<lparr>log := log w0 @ [LogWarning (''Suspending '' @ cn @ '': '' @ why)]\<rparr>
                 in case execute_RTC e (''RTC stop '' @ cn) w0' of
                      (Inl msg, w1) \<Rightarrow>
                        w1\<lparr>log := log w1 @ [LogError (''Failed to suspend '' @ cn @ '': '' @ msg)]\<rparr>
                    | (Inr _, w1) \<Rightarrow>
                        save_data e (put_vps p (suspend_auto (now e (clock_reads w1)) why v)
                                       (w1\<lparr>clock_reads := Suc (clock_reads w1)\<rparr>))
               else w0
          else w)"

definition breach :: "settings \<Rightarrow> env \<Rightarrow> vps \<Rightarrow> bool" where
  \<comment> \<open>\<^verbatim>\<open>cpu > CPU_THRESHOLD or ram > RAM_THRESHOLD\<close> for the samples taken inside the instance\<close>
  "breach cfg e v =
     (get_container_cpu_pct e (container_name v) > of_int (CPU_THRESHOLD cfg)
      \<or> get_container_ram_pct e (container_name v) > of_int (RAM_THRESHOLD cfg))"

text \<open>The inner loop \<^verbatim>\<open>for vps in list(vps_list)\<close> for owner number \<open>i\<close>.\<close>

definition monitor_owner :: "settings \<Rightarrow> env \<Rightarrow> nat \<Rightarrow> world \<Rightarrow> world" where
  "monitor_owner cfg e i w =
     fold (\<lambda>j. monitor_vps cfg e (i, j)) [0..<length (snd (vps_data w ! i))] w"

text \<open>
  One pass of the \<^verbatim>\<open>while True\<close> loop, up to its sleep: the outer loop
  \<^verbatim>\<open>for user_id, vps_list in list(vps_data.items())\<close>.
\<close>

definition vps_monitor_tick :: "settings \<Rightarrow> env \<Rightarrow> world \<Rightarrow> world" where
  "vps_monitor_tick cfg e w = fold (monitor_owner cfg e) [0..<length (vps_data w)] w"

section \<open>The host monitor\<close>

definition stop_running :: "vps \<Rightarrow> vps" where
  "stop_running v = (if status v = Some ''running'' then v\<lparr>status := Some ''stopped''\<rparr> else v)"

text \<open>
  One arrival of the task at the test of \<^verbatim>\<open>while cpu_monitor_active:\<close>. A task that has
  left the loop does nothing more. When the flag is false the loop ends and the coroutine
  returns; otherwise the body runs up to its sleep, and every exception in it is caught.
  The two log lines that print the reading are kept without the numbers.
\<close>

definition cpu_monitor_wake :: "settings \<Rightarrow> env \<Rightarrow> world \<Rightarrow> world" where
  "cpu_monitor_wake cfg e w =
     (if \<not> cpu_monitor_task w then w
      else if \<not> cpu_monitor_active w then w\<lparr>cpu_monitor_task := False\<rparr>
      else
        let cpu_usage = get_cpu_usage e (length (sampled w));
            w0 = w\<lparr>sampled := sampled w @ [(''host'', ''top'')],
                   log := log w @ [LogInfo ''Current CPU usage'']\<rparr>
        in if cpu_usage > of_int (CPU_THRESHOLD cfg) then
             case execute_RTC e ''RTC stop --all --force''
                    (w0\<lparr>log := log w0 @ [LogWarning ''CPU usage exceeded threshold. Stopping all VPS.'']\<rparr>) of
               (Inl msg, w1) \<Rightarrow> w1\<lparr>log := log w1 @ [LogError (''Error stopping all VPS: '' @ msg)]\<rparr>
             | (Inr _, w1) \<Rightarrow>
                 save_data e
                   (w1\<lparr>vps_data := map (\<lambda>(user_id, vps_list). (user_id, map stop_running vps_list)) (vps_data w1),
                       log := log w1 @ [LogInfo ''All VPS stopped due to high CPU usage'']\<rparr>)
           else w0)"

text \<open>\<^verbatim>\<open>str.lower\<close> on ASCII text.\<close>

definition lower_char :: "char \<Rightarrow> char" where
  "lower_char c =
     (case map_of (zip ''ABCDEFGHIJKLMNOPQRSTUVWXYZ'' ''abcdefghijklmnopqrstuvwxyz'') c of
        None \<Rightarrow> c | Some l \<Rightarrow> l)"

definition lower :: "string \<Rightarrow> string" where
  "lower s = map lower_char s"

definition cpu_monitor_control :: "string \<Rightarrow> world \<Rightarrow> embed list \<times> world" where
  "cpu_monitor_control action w =
     (if lower action = ''status'' then ([create_embed ''RathamCloud CPU Monitor Status''], w)
      else if lower action = ''enable''
        then ([create_success_embed ''CPU Monitor Enabled''], w\<lparr>cpu_monitor_active := True\<rparr>)
      else if lower action = ''disable''
        then ([create_warning_embed ''CPU Monitor Disabled''], w\<lparr>cpu_monitor_active := False\<rparr>)
      else ([create_error_embed ''Invalid Action''], w))"

text \<open>What happens to the host monitor: a \<^verbatim>\<open>!cpu-monitor\<close> command, or the task waking.\<close>

datatype host_event = Control string | Wake

fun host_step :: "settings \<Rightarrow> env \<Rightarrow> host_event \<Rightarrow> world \<Rightarrow> world" where
  "host_step cfg e (Control action) w = snd (cpu_monitor_control action w)"
| "host_step cfg e Wake w = cpu_monitor_wake cfg e w"

fun host_run :: "settings \<Rightarrow> env \<Rightarrow> host_event list \<Rightarrow> world \<Rightarrow> world" where
  "host_run cfg e [] w = w"
| "host_run cfg e (ev # evs) w = host_run cfg e evs (host_step cfg e ev w)"

section \<open>Concrete runs\<close>

text \<open>An outside where every command and every save works.\<close>

definition calm_env :: env where
  "calm_env =
     \<lparr>rtc = (\<lambda>_ _. Succeeded), fs = (\<lambda>_. WriteOk), now = (\<lambda>_. ''2024-05-01T12:00:00''),
      get_cpu_usage = (\<lambda>_. 0), get_container_cpu_pct = (\<lambda>_. 0),
      get_container_ram_pct = (\<lambda>_. 0), fmt1 = (\<lambda>_. ''0.0'')\<rparr>"

text \<open>
  The process started with the default settings and no files; then an administrator
  creates one instance (2 GB, 1 core, 10 GB) for user 7 and grants that user two port slots;
  then user 7 forwards port 80 of the instance.
\<close>

definition fresh :: world where
  "fresh = projr (startup default_settings no_files)"

definition hosted :: world where
  "hosted = snd (ports_add_user calm_env 2 7 (snd (create_vps default_settings calm_env 2 1 10 7 fresh)))"

definition forwarded :: world where
  "forwarded = snd (ports_command calm_env 7 ''add'' (Some 1) (Some 80) hosted)"

text \<open>The same outside with every instance at 92 percent CPU and 40 percent RAM.\<close>

definition busy :: "env \<Rightarrow> env" where
  "busy e = e\<lparr>get_container_cpu_pct := (\<lambda>_. 92), get_container_ram_pct := (\<lambda>_. 40),
              fmt1 := (\<lambda>x. if x = 92 then ''92.0'' else ''40.0'')\<rparr>"

text \<open>An outside that refuses one given command and accepts every other.\<close>

definition refusing :: "string \<Rightarrow> env" where
  "refusing c =
     calm_env\<lparr>rtc := (\<lambda>_ command. if command = c then Failed (Raised ''refused'') else Succeeded)\<rparr>"

text \<open>
  What a command's caller and the rest of the process can see of a state: everything but
  the files on disk, the count of saves and the log.
\<close>

definition in_memory ::
  "world \<Rightarrow> (string \<times> vps list) list \<times> admin_registry \<times> port_table \<times> bool \<times> bool
            \<times> (string \<times> exec_result) list \<times> (string \<times> string) list \<times> nat" where
  "in_memory w =
     (vps_data w, admin_data w, port_data w, cpu_monitor_active w, cpu_monitor_task w,
      rtc_calls w, sampled w, clock_reads w)"

text \<open>An outside whose disk refuses every write, and one whose host runs at 95 percent CPU.\<close>

definition disk_full :: env where
  "disk_full = calm_env\<lparr>fs := (\<lambda>_. FailVps ''[Errno 28] No space left on device'')\<rparr>"

definition host_busy :: env where
  "host_busy = calm_env\<lparr>get_cpu_usage := (\<lambda>_. 95)\<rparr>"

section \<open>Loading: which failures give the default\<close>

text \<open>
  C10, counterexample. The claim says that loading never fails and that a corrupt file
  gives the default. A file whose bytes are not valid UTF-8 makes \<^verbatim>\<open>json.load\<close> raise
  \<^verbatim>\<open>UnicodeDecodeError\<close>, which is neither of the two exceptions the loaders catch:
  each loader raises, and with such a \<^verbatim>\<open>vps_data.json\<close> the start-up ends with that error.
\<close>

theorem undecodable_file_ends_startup:
  "snd (load_vps_data (OtherError ''UnicodeDecodeError'')) = Inl (Uncaught ''UnicodeDecodeError'')
   \<and> snd (load_admin_data default_settings (OtherError ''UnicodeDecodeError''))
       = Inl (Uncaught ''UnicodeDecodeError'')
   \<and> snd (load_port_data (OtherError ''UnicodeDecodeError'')) = Inl (Uncaught ''UnicodeDecodeError'')
   \<and> startup default_settings (no_files\<lparr>vps_file := OtherError ''UnicodeDecodeError''\<rparr>)
       = Inl (Uncaught ''UnicodeDecodeError'')"
  by (simp add: load_vps_data_def load_admin_data_def load_port_data_def startup_def no_files_def)

text \<open>
  C10, as the code has it. For each of the three collections, a missing file
  (\<^verbatim>\<open>FileNotFoundError\<close>) and a text that is not valid JSON (\<^verbatim>\<open>json.JSONDecodeError\<close>)
  make the loader log a warning and return its default instead of raising: no instance
  records, an admin registry holding only the main admin, an empty port table. A document
  that loads is returned as it is. Every other exception of opening or reading the file is
  not caught: the loader raises it, and the start-up, which loads the three files in the
  order instances, admins, ports, ends with it.
\<close>

theorem load_outcomes:
  "load_vps_data FileNotFoundError
     = ([LogWarning ''vps_data.json not found or corrupted, initializing empty data''], Inr [])
   \<and> load_vps_data JSONDecodeError
     = ([LogWarning ''vps_data.json not found or corrupted, initializing empty data''], Inr [])
   \<and> load_vps_data (Loaded v) = ([], Inr v)
   \<and> load_vps_data (OtherError x) = ([], Inl (Uncaught x))
   \<and> load_admin_data cfg FileNotFoundError
     = ([LogWarning ''admin_data.json not found or corrupted, initializing with main admin''],
        Inr \<lparr>admins = Some [str (MAIN_ADMIN_ID cfg)]\<rparr>)
   \<and> load_admin_data cfg JSONDecodeError
     = ([LogWarning ''admin_data.json not found or corrupted, initializing with main admin''],
        Inr \<lparr>admins = Some [str (MAIN_ADMIN_ID cfg)]\<rparr>)
   \<and> load_admin_data cfg (Loaded a) = ([], Inr a)
   \<and> load_admin_data cfg (OtherError x) = ([], Inl (Uncaught x))
   \<and> load_port_data FileNotFoundError
     = ([LogWarning ''port_data.json not found or corrupted, initializing empty data''],
        Inr \<lparr>users = [], active_ports = []\<rparr>)
   \<and> load_port_data JSONDecodeError
     = ([LogWarning ''port_data.json not found or corrupted, initializing empty data''],
        Inr \<lparr>users = [], active_ports = []\<rparr>)
   \<and> load_port_data (Loaded p) = ([], Inr p)
   \<and> load_port_data (OtherError x) = ([], Inl (Uncaught x))
   \<and> startup cfg \<lparr>vps_file = OtherError x, admin_file = fa, port_file = fp\<rparr> = Inl (Uncaught x)
   \<and> startup cfg \<lparr>vps_file = Loaded v, admin_file = OtherError x, port_file = fp\<rparr> = Inl (Uncaught x)
   \<and> startup cfg \<lparr>vps_file = Loaded v, admin_file = Loaded a, port_file = OtherError x\<rparr>
       = Inl (Uncaught x)
   \<and> vps_data (projr (startup cfg \<lparr>vps_file = JSONDecodeError, admin_file = JSONDecodeError,
                                    port_file = JSONDecodeError\<rparr>)) = []
   \<and> admin_data (projr (startup cfg \<lparr>vps_file = JSONDecodeError, admin_file = JSONDecodeError,
                                      port_file = JSONDecodeError\<rparr>))
       = \<lparr>admins = Some [str (MAIN_ADMIN_ID cfg)]\<rparr>
   \<and> port_data (projr (startup cfg \<lparr>vps_file = JSONDecodeError, admin_file = JSONDecodeError,
                                     port_file = JSONDecodeError\<rparr>))
       = \<lparr>users = [], active_ports = []\<rparr>"
  by (simp add: load_vps_data_def load_admin_data_def load_port_data_def startup_def)

section \<open>What the executor and the port commands leave unchanged\<close>

lemma save_data_memory [simp]:
  "vps_data (save_data e w) = vps_data w"
  "admin_data (save_data e w) = admin_data w"
  "port_data (save_data e w) = port_data w"
  "cpu_monitor_active (save_data e w) = cpu_monitor_active w"
  "cpu_monitor_task (save_data e w) = cpu_monitor_task w"
  "rtc_calls (save_data e w) = rtc_calls w"
  "sampled (save_data e w) = sampled w"
  "clock_reads (save_data e w) = clock_reads w"
  "save_calls (save_data e w) = Suc (save_calls w)"
  by (simp_all add: save_data_def Let_def split: save_outcome.split)

lemma execute_RTC_memory [simp]:
  "vps_data (snd (execute_RTC e c w)) = vps_data w"
  "admin_data (snd (execute_RTC e c w)) = admin_data w"
  "port_data (snd (execute_RTC e c w)) = port_data w"
  "cpu_monitor_active (snd (execute_RTC e c w)) = cpu_monitor_active w"
  "cpu_monitor_task (snd (execute_RTC e c w)) = cpu_monitor_task w"
  "sampled (snd (execute_RTC e c w)) = sampled w"
  "disk (snd (execute_RTC e c w)) = disk w"
  "save_calls (snd (execute_RTC e c w)) = save_calls w"
  "clock_reads (snd (execute_RTC e c w)) = clock_reads w"
  by (simp_all add: execute_RTC_def Let_def split: exec_result.split)

lemma execute_RTC_frame:
  "\<exists>calls lg. snd (execute_RTC e c w) = w\<lparr>rtc_calls := calls, log := lg\<rparr>"
proof (cases "rtc e (length (rtc_calls w)) c")
  case Succeeded
  then have "snd (execute_RTC e c w) = w\<lparr>rtc_calls := rtc_calls w @ [(c, Succeeded)], log := log w\<rparr>"
    by (simp add: execute_RTC_def Let_def)
  then show ?thesis by blast
next
  case (Failed msg)
  then have "snd (execute_RTC e c w)
      = w\<lparr>rtc_calls := rtc_calls w @ [(c, Failed msg)], log := log w @ [error_line c msg]\<rparr>"
    by (simp add: execute_RTC_def Let_def)
  then show ?thesis by blast
qed

lemma execute_all_frame:
  "\<exists>calls lg. snd (execute_all e cs w) = w\<lparr>rtc_calls := calls, log := lg\<rparr>"
proof (induction cs arbitrary: w)
  case Nil
  have "snd (execute_all e [] w) = w\<lparr>rtc_calls := rtc_calls w, log := log w\<rparr>" by simp
  then show ?case by blast
next
  case (Cons c cs)
  obtain r w1 where r: "execute_RTC e c w = (r, w1)" by (cases "execute_RTC e c w")
  from execute_RTC_frame [of e c w] r obtain calls lg
    where w1: "w1 = w\<lparr>rtc_calls := calls, log := lg\<rparr>" by auto
  show ?case
  proof (cases r)
    case (Inl msg)
    then have "snd (execute_all e (c # cs) w) = w1" using r by simp
    then show ?thesis using w1 by blast
  next
    case (Inr u)
    then have "snd (execute_all e (c # cs) w) = snd (execute_all e cs w1)" using r by simp
    moreover from Cons.IH [of w1] obtain calls' lg'
      where "snd (execute_all e cs w1) = w1\<lparr>rtc_calls := calls', log := lg'\<rparr>" by blast
    ultimately have "snd (execute_all e (c # cs) w) = w\<lparr>rtc_calls := calls', log := lg'\<rparr>"
      using w1 by simp
    then show ?thesis by blast
  qed
qed

lemma execute_all_memory [simp]:
  "vps_data (snd (execute_all e cs w)) = vps_data w"
  "admin_data (snd (execute_all e cs w)) = admin_data w"
  "port_data (snd (execute_all e cs w)) = port_data w"
  "cpu_monitor_active (snd (execute_all e cs w)) = cpu_monitor_active w"
  "cpu_monitor_task (snd (execute_all e cs w)) = cpu_monitor_task w"
  "sampled (snd (execute_all e cs w)) = sampled w"
  "disk (snd (execute_all e cs w)) = disk w"
  "save_calls (snd (execute_all e cs w)) = save_calls w"
  "clock_reads (snd (execute_all e cs w)) = clock_reads w"
proof -
  from execute_all_frame [of e cs w] obtain calls lg
    where "snd (execute_all e cs w) = w\<lparr>rtc_calls := calls, log := lg\<rparr>" by blast
  then show
    "vps_data (snd (execute_all e cs w)) = vps_data w"
    "admin_data (snd (execute_all e cs w)) = admin_data w"
    "port_data (snd (execute_all e cs w)) = port_data w"
    "cpu_monitor_active (snd (execute_all e cs w)) = cpu_monitor_active w"
    "cpu_monitor_task (snd (execute_all e cs w)) = cpu_monitor_task w"
    "sampled (snd (execute_all e cs w)) = sampled w"
    "disk (snd (execute_all e cs w)) = disk w"
    "save_calls (snd (execute_all e cs w)) = save_calls w"
    "clock_reads (snd (execute_all e cs w)) = clock_reads w"
    by simp_all
qed

lemma first_free_Some:
  "first_free used p = Some q \<Longrightarrow>
     p \<le> q \<and> q < 20000 \<and> q \<notin> set used \<and> (\<forall>r. p \<le> r \<and> r < q \<longrightarrow> r \<in> set used)"
proof (induction used p rule: first_free.induct)
  case (1 used p)
  show ?case
  proof (cases "p < 20000 \<and> p \<in> set used")
    case True
    then have "first_free used (p + 1) = Some q"
      using "1.prems" by (simp add: first_free.simps [of used p])
    with "1.IH" True have ih: "p + 1 \<le> q \<and> q < 20000 \<and> q \<notin> set used
        \<and> (\<forall>r. p + 1 \<le> r \<and> r < q \<longrightarrow> r \<in> set used)" by simp
    have "\<forall>r. p \<le> r \<and> r < q \<longrightarrow> r \<in> set used"
    proof (intro allI impI)
      fix r assume "p \<le> r \<and> r < q"
      then have "r = p \<or> (p + 1 \<le> r \<and> r < q)" by arith
      then show "r \<in> set used" using True ih by blast
    qed
    with ih show ?thesis by simp
  next
    case False
    then show ?thesis using "1.prems"
      by (auto simp: first_free.simps [of used p] split: if_splits)
  qed
qed

lemma first_free_None:
  "first_free used p = None \<Longrightarrow> (\<forall>r. p \<le> r \<and> r < 20000 \<longrightarrow> r \<in> set used)"
proof (induction used p rule: first_free.induct)
  case (1 used p)
  show ?case
  proof (cases "p < 20000")
    case True
    with "1.prems" have inp: "p \<in> set used" and nxt: "first_free used (p + 1) = None"
      by (auto simp: first_free.simps [of used p] split: if_splits)
    with "1.IH" True have ih: "\<forall>r. p + 1 \<le> r \<and> r < 20000 \<longrightarrow> r \<in> set used" by simp
    show ?thesis
    proof (intro allI impI)
      fix r assume "p \<le> r \<and> r < 20000"
      then have "r = p \<or> (p + 1 \<le> r \<and> r < 20000)" by arith
      then show "r \<in> set used" using inp ih by blast
    qed
  next
    case False
    then show ?thesis by auto
  qed
qed

lemma execute_all_port_data:
  "execute_all e cs w = (r, w1) \<Longrightarrow> port_data w1 = port_data w"
  using execute_all_memory(3) [of e cs w] by simp

lemma active_get_cong: "port_data w' = port_data w \<Longrightarrow> active_get w' u = active_get w u"
  by (simp add: active_get_def)

lemma used_ports_update:
  "\<exists>pre post.
     used_ports pd = pre @ map host_port (case map_of (active_ports pd) k of None \<Rightarrow> [] | Some l \<Rightarrow> l) @ post
     \<and> used_ports (pd\<lparr>active_ports := AList.update k l' (active_ports pd)\<rparr>)
         = pre @ map host_port l' @ post"
proof -
  define P where "P = (\<lambda>al :: (string \<times> port_info list) list. concat (map (\<lambda>(_, l). map host_port l) al))"
  have "\<exists>pre post.
     P al = pre @ map host_port (case map_of al k of None \<Rightarrow> [] | Some l \<Rightarrow> l) @ post
     \<and> P (AList.update k l' al) = pre @ map host_port l' @ post" for al
  proof (induction al)
    case Nil
    have "P [] = [] @ map host_port (case map_of [] k of None \<Rightarrow> [] | Some l \<Rightarrow> l) @ []
       \<and> P (AList.update k l' []) = [] @ map host_port l' @ []"
      by (simp add: P_def)
    then show ?case by blast
  next
    case (Cons a al)
    obtain ka la where a: "a = (ka, la)" by (cases a)
    show ?case
    proof (cases "ka = k")
      case True
      have "P (a # al) = [] @ map host_port (case map_of (a # al) k of None \<Rightarrow> [] | Some l \<Rightarrow> l) @ P al
         \<and> P (AList.update k l' (a # al)) = [] @ map host_port l' @ P al"
        using a True by (simp add: P_def)
      then show ?thesis by blast
    next
      case False
      from Cons.IH obtain pre post where ih:
        "P al = pre @ map host_port (case map_of al k of None \<Rightarrow> [] | Some l \<Rightarrow> l) @ post"
        "P (AList.update k l' al) = pre @ map host_port l' @ post" by blast
      have "P (a # al) = (map host_port la @ pre)
              @ map host_port (case map_of (a # al) k of None \<Rightarrow> [] | Some l \<Rightarrow> l) @ post
         \<and> P (AList.update k l' (a # al)) = (map host_port la @ pre) @ map host_port l' @ post"
        using a False ih by (simp add: P_def)
      then show ?thesis by blast
    qed
  qed
  from this [of "active_ports pd"] show ?thesis
    by (simp add: used_ports_def P_def)
qed

lemma ports_inv_append:
  assumes inv: "ports_inv pd" and fresh: "hp \<notin> set (used_ports pd)" and rng: "in_range hp"
    and l: "l = (case map_of (active_ports pd) k of None \<Rightarrow> [] | Some l \<Rightarrow> l)"
    and x: "host_port x = hp"
  shows "ports_inv (pd\<lparr>active_ports := AList.update k (l @ [x]) (active_ports pd)\<rparr>)"
proof -
  from used_ports_update [of pd k "l @ [x]"] l obtain pre post where
    old: "used_ports pd = pre @ map host_port l @ post" and
    new: "used_ports (pd\<lparr>active_ports := AList.update k (l @ [x]) (active_ports pd)\<rparr>)
            = pre @ map host_port (l @ [x]) @ post" by auto
  from inv old fresh rng x show ?thesis
    unfolding ports_inv_def new by auto
qed

lemma distinct_shrink_middle:
  assumes "distinct (pre @ m @ post)" and "distinct m'" and "set m' \<subseteq> set m"
  shows "distinct (pre @ m' @ post)"
proof -
  from assms(1) have "distinct pre" "distinct post" "set pre \<inter> set post = {}"
    "set pre \<inter> set m = {}" "set m \<inter> set post = {}" by auto
  moreover from this assms(3) have "set pre \<inter> set m' = {}" "set m' \<inter> set post = {}" by blast+
  ultimately show ?thesis using assms(2) by auto
qed

lemma ports_inv_remove1:
  assumes inv: "ports_inv pd"
    and l: "l = (case map_of (active_ports pd) k of None \<Rightarrow> [] | Some l \<Rightarrow> l)"
  shows "ports_inv (pd\<lparr>active_ports := AList.update k (remove1 y l) (active_ports pd)\<rparr>)"
proof -
  define m where "m = map host_port l"
  define m' where "m' = map host_port (remove1 y l)"
  from used_ports_update [of pd k "remove1 y l"] l obtain pre post where
    old: "used_ports pd = pre @ m @ post" and
    new: "used_ports (pd\<lparr>active_ports := AList.update k (remove1 y l) (active_ports pd)\<rparr>)
            = pre @ m' @ post" unfolding m_def m'_def by auto
  have sub: "set m' \<subseteq> set m"
    unfolding m_def m'_def using set_remove1_subset [of y l] by auto
  have dist: "distinct m \<Longrightarrow> distinct m'"
    unfolding m_def m'_def using set_remove1_subset [of y l]
    by (auto simp: distinct_map intro: inj_on_subset)
  from inv old have d: "distinct (pre @ m @ post)" and r: "list_all in_range (pre @ m @ post)"
    unfolding ports_inv_def by simp_all
  from d have "distinct m" by simp
  from distinct_shrink_middle [OF d dist [OF this] sub]
  have "distinct (pre @ m' @ post)" .
  moreover have "list_all in_range (pre @ m' @ post)"
    using r sub unfolding list_all_iff by auto
  ultimately show ?thesis
    unfolding ports_inv_def new by simp
qed

lemma get_next_available_port_fresh:
  "get_next_available_port pd = Some hp \<Longrightarrow> hp \<notin> set (used_ports pd) \<and> in_range hp"
  unfolding get_next_available_port_def in_range_def
  by (drule first_free_Some) simp

lemma ports_add_inv:
  assumes "ports_inv (port_data w)"
  shows "ports_inv (port_data (snd (ports_add e author a1 a2 w)))"
proof -
  have upd: "ports_inv (port_data (save_data e (set_active (str author)
         (active_get w1 (str author) @ [\<lparr>container = cn, internal_port = arg2, host_port = hp\<rparr>]) w1)))"
    if nxt: "get_next_available_port (port_data w) = Some hp" and same: "port_data w1 = port_data w"
    for hp cn arg2 w1
  proof -
    from get_next_available_port_fresh [OF nxt]
    have "hp \<notin> set (used_ports (port_data w))" "in_range hp" by simp_all
    from ports_inv_append [OF assms this refl, of "\<lparr>container = cn, internal_port = arg2, host_port = hp\<rparr>" "str author"]
    show ?thesis using same by (simp add: set_active_def active_get_def)
  qed
  show ?thesis
    using assms upd
    by (auto simp: ports_add_def Let_def simp del: execute_all.simps
        dest!: execute_all_port_data
        split: option.splits prod.splits sum.splits if_splits)
qed

lemma ports_remove_inv:
  assumes "ports_inv (port_data w)"
  shows "ports_inv (port_data (snd (ports_remove e author a1 w)))"
proof -
  have upd: "ports_inv (port_data (save_data e (set_active (str author)
         (remove1 found (active_get w1 (str author))) w1)))"
    if same: "port_data w1 = port_data w" for found w1
    using ports_inv_remove1 [OF assms refl, of "str author" found] same
    by (simp add: set_active_def active_get_def)
  show ?thesis
    using assms upd
    by (auto simp: ports_remove_def Let_def simp del: execute_all.simps
        dest!: execute_all_port_data
        split: option.splits prod.splits sum.splits if_splits)
qed

lemma ports_command_inv:
  "ports_inv (port_data w) \<Longrightarrow> ports_inv (port_data (snd (ports_command e author action a1 a2 w)))"
  by (simp add: ports_command_def ports_add_inv ports_remove_inv)

lemma ports_run_inv:
  "ports_inv (port_data w) \<Longrightarrow> ports_inv (port_data (ports_run e cs w))"
proof (induction cs arbitrary: w)
  case Nil
  then show ?case by simp
next
  case (Cons c cs)
  obtain author action a1 a2 where c: "c = Ports author action a1 a2" by (cases c)
  from Cons.prems have "ports_inv (port_data (snd (ports_command e author action a1 a2 w)))"
    by (rule ports_command_inv)
  from Cons.IH [OF this] show ?case using c by simp
qed

section \<open>The administrator registry\<close>

lemma admins_get_save_data [simp]: "admins_get (save_data e w) = admins_get w"
  by (simp add: admins_get_def)

lemma admins_get_update [simp]:
  "admins_get (w\<lparr>admin_data := (admin_data w)\<lparr>admins := Some l\<rparr>\<rparr>) = l"
  by (simp add: admins_get_def)

lemma admin_add_keeps_other:
  "x \<noteq> str u \<Longrightarrow> x \<in> set (admins_get (snd (admin_add cfg e u w))) \<longleftrightarrow> x \<in> set (admins_get w)"
  by (simp add: admin_add_def Let_def)

lemma admin_remove_keeps_other:
  "x \<noteq> str u \<Longrightarrow> x \<in> set (admins_get (snd (admin_remove cfg e u w))) \<longleftrightarrow> x \<in> set (admins_get w)"
  by (simp add: admin_remove_def Let_def)

lemma admin_add_main_noop:
  "str u = str (MAIN_ADMIN_ID cfg) \<Longrightarrow> snd (admin_add cfg e u w) = w"
  by (simp add: admin_add_def)

lemma admin_remove_main_noop:
  "str u = str (MAIN_ADMIN_ID cfg) \<Longrightarrow> snd (admin_remove cfg e u w) = w"
  by (simp add: admin_remove_def)

lemma admin_step_main_member:
  "str (MAIN_ADMIN_ID cfg) \<in> set (admins_get (admin_step cfg e c w))
   \<longleftrightarrow> str (MAIN_ADMIN_ID cfg) \<in> set (admins_get w)"
proof (cases c)
  case (AdminAdd u)
  show ?thesis
  proof (cases "str u = str (MAIN_ADMIN_ID cfg)")
    case True
    then show ?thesis using AdminAdd by (simp add: admin_add_main_noop)
  next
    case False
    then have "str (MAIN_ADMIN_ID cfg) \<noteq> str u" by simp
    from admin_add_keeps_other [OF this] show ?thesis using AdminAdd by simp
  qed
next
  case (AdminRemove u)
  show ?thesis
  proof (cases "str u = str (MAIN_ADMIN_ID cfg)")
    case True
    then show ?thesis using AdminRemove by (simp add: admin_remove_main_noop)
  next
    case False
    then have "str (MAIN_ADMIN_ID cfg) \<noteq> str u" by simp
    from admin_remove_keeps_other [OF this] show ?thesis using AdminRemove by simp
  qed
qed

lemma admin_run_main_member:
  "str (MAIN_ADMIN_ID cfg) \<in> set (admins_get (admin_run cfg e cs w))
   \<longleftrightarrow> str (MAIN_ADMIN_ID cfg) \<in> set (admins_get w)"
  by (induction cs arbitrary: w) (simp_all add: admin_step_main_member)

text \<open>
  C8, counterexample. The claim says the main admin is never a member of the mutable admin
  list. With the default settings and no \<^verbatim>\<open>admin_data.json\<close>, the registry that
  \<^verbatim>\<open>load_admin_data\<close> returns lists the main admin's id.
\<close>

theorem main_admin_listed_after_default_load:
  "snd (load_admin_data default_settings FileNotFoundError)
     = Inr \<lparr>admins = Some [''1210291131301101618'']\<rparr>
   \<and> str (MAIN_ADMIN_ID default_settings) = ''1210291131301101618''"
  by (simp add: load_admin_data_def default_settings_def str_def digits.simps)

text \<open>
  C8, as the code has it. The main admin is the id equal to \<^verbatim>\<open>MAIN_ADMIN_ID\<close> and passes
  the admin check in every state. \<^verbatim>\<open>admin-add\<close> and \<^verbatim>\<open>admin-remove\<close> refuse that id, so
  after any sequence of them it is in the admin list exactly when it was before; and the
  registry loaded from a missing or corrupt file lists it, so there it stays listed.
\<close>

theorem main_admin_membership_fixed:
  "(str (MAIN_ADMIN_ID cfg) \<in> set (admins_get (admin_run cfg e cs w))
      \<longleftrightarrow> str (MAIN_ADMIN_ID cfg) \<in> set (admins_get w))
   \<and> is_admin cfg (admin_run cfg e cs w) (MAIN_ADMIN_ID cfg)
   \<and> str (MAIN_ADMIN_ID cfg) \<in> set (admins_get (admin_run cfg e cs
        (w\<lparr>admin_data := projr (snd (load_admin_data cfg FileNotFoundError))\<rparr>)))
   \<and> str (MAIN_ADMIN_ID cfg) \<in> set (admins_get (admin_run cfg e cs
        (w\<lparr>admin_data := projr (snd (load_admin_data cfg JSONDecodeError))\<rparr>)))"
proof -
  let ?m = "str (MAIN_ADMIN_ID cfg)"
  have listed: "?m \<in> set (admins_get (w\<lparr>admin_data := \<lparr>admins = Some [?m]\<rparr>\<rparr>))"
    by (simp add: admins_get_def)
  have "?m \<in> set (admins_get (admin_run cfg e cs (w\<lparr>admin_data := \<lparr>admins = Some [?m]\<rparr>\<rparr>)))"
    using listed by (simp only: admin_run_main_member)
  then show ?thesis
    by (simp add: admin_run_main_member is_admin_def load_admin_data_def)
qed

section \<open>Port forwards: the table stays within the range and free of duplicates\<close>

lemmas run_defs = startup_def no_files_def load_vps_data_def load_admin_data_def load_port_data_def
    create_vps_def new_container_name_def create_commands_def vps_info_def default_settings_def calm_env_def Let_def execute_RTC_def vps_get_def save_data_def
    str_def digits.simps ports_add_user_def ports_command_def ports_add_def ports_remove_def
    slots_get_def active_get_def set_active_def get_next_available_port_def used_ports_def
    first_free.simps add_tcp_def add_udp_def remove_tcp_def remove_udp_def refusing_def error_line_def error_text_def

lemma hosted_eval:
  "vps_data hosted =
     [(''7'', [\<lparr>container_name = ''RathamCloud-vps-7-1'', ram = ''2GB'', cpu = ''1'',
                storage = ''10GB'', config = ''2GB RAM / 1 CPU / 10GB Disk'',
                status = Some ''running'', suspended = Some False, suspension_history = Some [],
                created_at = ''2024-05-01T12:00:00'', shared_with = []\<rparr>])]"
  "port_data hosted = \<lparr>users = [(''7'', Some 2)], active_ports = []\<rparr>"
  "length (rtc_calls hosted) = 5"
  by (simp_all add: hosted_def fresh_def run_defs)

lemma forwarded_eval:
  "vps_data forwarded = vps_data hosted"
  "port_data forwarded = \<lparr>users = [(''7'', Some 2)],
      active_ports = [(''7'', [\<lparr>container = ''RathamCloud-vps-7-1'', internal_port = 80, host_port = 10000\<rparr>])]\<rparr>"
  by (simp_all add: forwarded_def ports_command_def ports_add_def hosted_eval Let_def vps_get_def
      slots_get_def active_get_def get_next_available_port_def used_ports_def first_free.simps
      execute_RTC_def calm_env_def set_active_def str_def digits.simps)

lemma execute_all_pair:
  "execute_all e [c1, c2] w =
     (case rtc e (length (rtc_calls w)) c1 of
        Failed m \<Rightarrow> (Inl (error_text m), w\<lparr>rtc_calls := rtc_calls w @ [(c1, Failed m)],
                               log := log w @ [error_line c1 m]\<rparr>)
      | Succeeded \<Rightarrow>
          (case rtc e (Suc (length (rtc_calls w))) c2 of
             Failed m \<Rightarrow> (Inl (error_text m), w\<lparr>rtc_calls := rtc_calls w @ [(c1, Succeeded), (c2, Failed m)],
                                    log := log w @ [error_line c2 m]\<rparr>)
           | Succeeded \<Rightarrow> (Inr (), w\<lparr>rtc_calls := rtc_calls w @ [(c1, Succeeded), (c2, Succeeded)]\<rparr>)))"
  by (simp add: execute_RTC_def Let_def split: exec_result.split)


lemma active_get_set_active [simp]: "active_get (set_active u l w) u = l"
  by (simp add: active_get_def set_active_def update_conv')

lemma get_next_available_port_least:
  "case get_next_available_port pd of
     Some q \<Rightarrow> in_range q \<and> q \<notin> set (used_ports pd)
               \<and> (\<forall>r. in_range r \<and> r < q \<longrightarrow> r \<in> set (used_ports pd))
   | None \<Rightarrow> (\<forall>r. in_range r \<longrightarrow> r \<in> set (used_ports pd))"
proof (cases "get_next_available_port pd")
  case None
  then show ?thesis
    using first_free_None [of "used_ports pd" 10000]
    by (simp add: get_next_available_port_def in_range_def)
next
  case (Some q)
  then show ?thesis
    using first_free_Some [of "used_ports pd" 10000 q]
    by (simp add: get_next_available_port_def in_range_def)
qed

text \<open>
  C4. Start from a port table whose host ports are pairwise different and lie in
  10000..19999 (the empty table is one). After any sequence of \<^verbatim>\<open>!ports\<close> commands by
  any users, whatever the executor and the disk answer, the host ports of the table are
  still pairwise different across all users and within that range. The next port chosen is
  the lowest port of the range that no forward uses, and there is none exactly when every
  port of the range is used.
\<close>

theorem port_table_invariant:
  assumes "ports_inv (port_data w)"
  shows "ports_inv (port_data (ports_run e cs w))
    \<and> (case get_next_available_port (port_data (ports_run e cs w)) of
         Some q \<Rightarrow> in_range q \<and> q \<notin> set (used_ports (port_data (ports_run e cs w)))
                   \<and> (\<forall>r. in_range r \<and> r < q \<longrightarrow> r \<in> set (used_ports (port_data (ports_run e cs w))))
       | None \<Rightarrow> (\<forall>r. in_range r \<longrightarrow> r \<in> set (used_ports (port_data (ports_run e cs w)))))"
  using ports_run_inv [OF assms] get_next_available_port_least by simp

lemma four_calls_eval:
  "port_data (ports_run calm_env
      [Ports 7 ''add'' (Some 1) (Some 80), Ports 7 ''add'' (Some 1) (Some 443),
       Ports 7 ''remove'' (Some 10000) None, Ports 7 ''add'' (Some 1) (Some 22)] hosted)
   = \<lparr>users = [(''7'', Some 2)],
      active_ports = [(''7'', [\<lparr>container = ''RathamCloud-vps-7-1'', internal_port = 443, host_port = 10001\<rparr>,
                               \<lparr>container = ''RathamCloud-vps-7-1'', internal_port = 22, host_port = 10000\<rparr>])]\<rparr>"
  by (simp add: hosted_def fresh_def run_defs)

theorem port_table_invariant_witness:
  "ports_inv (port_data hosted)
   \<and> ports_inv (port_data (ports_run calm_env
        [Ports 7 ''add'' (Some 1) (Some 80), Ports 7 ''add'' (Some 1) (Some 443),
         Ports 7 ''remove'' (Some 10000) None, Ports 7 ''add'' (Some 1) (Some 22)] hosted))
   \<and> used_ports (port_data (ports_run calm_env
        [Ports 7 ''add'' (Some 1) (Some 80), Ports 7 ''add'' (Some 1) (Some 443),
         Ports 7 ''remove'' (Some 10000) None, Ports 7 ''add'' (Some 1) (Some 22)] hosted)) = [10001, 10000]
   \<and> get_next_available_port (port_data (ports_run calm_env
        [Ports 7 ''add'' (Some 1) (Some 80), Ports 7 ''add'' (Some 1) (Some 443),
         Ports 7 ''remove'' (Some 10000) None, Ports 7 ''add'' (Some 1) (Some 22)] hosted)) = Some 10002"
proof -
  have h: "ports_inv (port_data hosted)"
    by (simp add: hosted_eval ports_inv_def used_ports_def)
  from port_table_invariant [OF h, of calm_env
        "[Ports 7 ''add'' (Some 1) (Some 80), Ports 7 ''add'' (Some 1) (Some 443),
          Ports 7 ''remove'' (Some 10000) None, Ports 7 ''add'' (Some 1) (Some 22)]"]
  have "ports_inv (port_data (ports_run calm_env
        [Ports 7 ''add'' (Some 1) (Some 80), Ports 7 ''add'' (Some 1) (Some 443),
         Ports 7 ''remove'' (Some 10000) None, Ports 7 ''add'' (Some 1) (Some 22)] hosted))"
    by (rule conjunct1)
  moreover have "used_ports \<lparr>users = [(''7'', Some 2)],
      active_ports = [(''7'', [\<lparr>container = ''RathamCloud-vps-7-1'', internal_port = 443, host_port = 10001\<rparr>,
                               \<lparr>container = ''RathamCloud-vps-7-1'', internal_port = 22, host_port = 10000\<rparr>])]\<rparr>
      = [10001, 10000]"
    by (simp add: used_ports_def)
  moreover have "get_next_available_port \<lparr>users = [(''7'', Some 2)],
      active_ports = [(''7'', [\<lparr>container = ''RathamCloud-vps-7-1'', internal_port = 443, host_port = 10001\<rparr>,
                               \<lparr>container = ''RathamCloud-vps-7-1'', internal_port = 22, host_port = 10000\<rparr>])]\<rparr>
      = Some 10002"
    by (simp add: get_next_available_port_def used_ports_def first_free.simps)
  ultimately show ?thesis using h by (simp only: four_calls_eval simp_thms)
qed

section \<open>Port forwards: allocation and release\<close>

lemma rtc_calls_set_active [simp]:
  "rtc_calls (set_active u l w) = rtc_calls w"
  by (simp add: set_active_def)

text \<open>
  C2, counterexample. User 7 has two slots and no forward. The executor accepts the TCP rule
  and refuses the UDP rule. The command answers "Failed" and records nothing, and the TCP
  rule it added stays on the device: no command removes it.
\<close>

theorem tcp_rule_left_unrecorded:
  "ports_command
     (refusing ''RTC config device add RathamCloud-vps-7-1 port-10000-udp proxy listen=udp:0.0.0.0:10000 connect=udp:127.0.0.1:80'')
     7 ''add'' (Some 1) (Some 80) hosted
   = ([create_info_embed ''Adding Port Forward'', create_error_embed ''Failed''],
      hosted\<lparr>rtc_calls := rtc_calls hosted @
          [(''RTC config device add RathamCloud-vps-7-1 port-10000-tcp proxy listen=tcp:0.0.0.0:10000 connect=tcp:127.0.0.1:80'', Succeeded),
           (''RTC config device add RathamCloud-vps-7-1 port-10000-udp proxy listen=udp:0.0.0.0:10000 connect=udp:127.0.0.1:80'', Failed (Raised ''refused''))],
        log := log hosted @ [LogError ''RTC Error: RTC config device add RathamCloud-vps-7-1 port-10000-udp proxy listen=udp:0.0.0.0:10000 connect=udp:127.0.0.1:80 - refused'']\<rparr>)
   \<and> used_ports (port_data hosted) = []"
  by (simp add: ports_command_def ports_add_def hosted_eval Let_def vps_get_def
      slots_get_def active_get_def get_next_available_port_def used_ports_def first_free.simps
      execute_RTC_def calm_env_def refusing_def error_line_def error_text_def set_active_def str_def digits.simps add_tcp_def add_udp_def)

text \<open>
  C2, as the code has it. For a valid instance number: when the user's forwards are as many
  as their slots (or more), the command answers "No Slots", issues no command and changes
  nothing. Otherwise, given a free port, it issues the TCP rule and then the UDP rule, and
  records the mapping only after both succeeded. When the TCP rule fails nothing more is
  issued and nothing is recorded. When the UDP rule fails after the TCP rule succeeded,
  nothing is recorded and no command removes the TCP rule.
\<close>

theorem ports_add_outcomes:
  assumes "1 \<le> arg1" and "arg1 \<le> int (length (vps_get w (str author)))"
  shows
    "let user_id = str author;
         cn = container_name (vps_get w user_id ! nat (arg1 - 1));
         n = length (rtc_calls w);
         res = ports_command e author ''add'' (Some arg1) (Some arg2) w
     in if slots_get w user_id \<le> int (length (active_get w user_id))
        then res = ([create_error_embed ''No Slots''], w)
        else case get_next_available_port (port_data w) of
               None \<Rightarrow> res = ([create_error_embed ''System Error''], w)
             | Some hp \<Rightarrow>
                 (case rtc e n (add_tcp cn hp arg2) of
                    Failed m \<Rightarrow>
                      fst res = [create_info_embed ''Adding Port Forward'', create_error_embed ''Failed'']
                      \<and> rtc_calls (snd res) = rtc_calls w @ [(add_tcp cn hp arg2, Failed m)]
                      \<and> port_data (snd res) = port_data w
                  | Succeeded \<Rightarrow>
                      (case rtc e (Suc n) (add_udp cn hp arg2) of
                         Failed m \<Rightarrow>
                           fst res = [create_info_embed ''Adding Port Forward'', create_error_embed ''Failed'']
                           \<and> rtc_calls (snd res) = rtc_calls w @
                                [(add_tcp cn hp arg2, Succeeded), (add_udp cn hp arg2, Failed m)]
                           \<and> port_data (snd res) = port_data w
                       | Succeeded \<Rightarrow>
                           fst res = [create_info_embed ''Adding Port Forward'',
                                      create_success_embed ''Port Forward Added'']
                           \<and> rtc_calls (snd res) = rtc_calls w @
                                [(add_tcp cn hp arg2, Succeeded), (add_udp cn hp arg2, Succeeded)]
                           \<and> active_get (snd res) user_id = active_get w user_id
                                @ [\<lparr>container = cn, internal_port = arg2, host_port = hp\<rparr>]))"
proof -
  let ?u = "str author"
  let ?cn = "container_name (vps_get w ?u ! nat (arg1 - 1))"
  note defs = ports_command_def ports_add_def Let_def execute_all_pair
  show ?thesis
  proof (cases "slots_get w ?u \<le> int (length (active_get w ?u))")
    case True
    then show ?thesis using assms by (simp add: defs del: execute_all.simps)
  next
    case quota: False
    show ?thesis
    proof (cases "get_next_available_port (port_data w)")
      case None
      then show ?thesis using assms quota by (simp add: defs del: execute_all.simps)
    next
      case (Some hp)
      from get_next_available_port_fresh [OF Some] have nz: "hp \<noteq> 0"
        by (auto simp: in_range_def)
      show ?thesis
      proof (cases "rtc e (length (rtc_calls w)) (add_tcp ?cn hp arg2)")
        case (Failed m)
        then show ?thesis using assms quota Some nz by (simp add: defs del: execute_all.simps)
      next
        case tcp: Succeeded
        show ?thesis
        proof (cases "rtc e (Suc (length (rtc_calls w))) (add_udp ?cn hp arg2)")
          case (Failed m)
          then show ?thesis using assms quota Some nz tcp by (simp add: defs del: execute_all.simps)
        next
          case Succeeded
          then show ?thesis using assms quota Some nz tcp
            by (simp add: defs active_get_def set_active_def update_conv' del: execute_all.simps)
        qed
      qed
    qed
  qed
qed


theorem ports_add_outcomes_witness:
  "(1::int) \<le> 1 \<and> 1 \<le> int (length (vps_get hosted (str 7)))
   \<and> fst (ports_command calm_env 7 ''add'' (Some 1) (Some 80) hosted)
       = [create_info_embed ''Adding Port Forward'', create_success_embed ''Port Forward Added'']
   \<and> active_get (snd (ports_command calm_env 7 ''add'' (Some 1) (Some 80) hosted)) (str 7)
       = [\<lparr>container = ''RathamCloud-vps-7-1'', internal_port = 80, host_port = 10000\<rparr>]"
proof -
  have h1: "(1::int) \<le> 1" by simp
  have h2: "1 \<le> int (length (vps_get hosted (str 7)))"
    by (simp add: vps_get_def hosted_eval str_def digits.simps)
  have nxt: "get_next_available_port (port_data hosted) = Some 10000"
    by (simp add: hosted_eval get_next_available_port_def used_ports_def first_free.simps)
  have q: "\<not> slots_get hosted (str 7) \<le> int (length (active_get hosted (str 7)))"
    "active_get hosted (str 7) = []"
    "container_name (vps_get hosted (str 7) ! nat (1 - 1)) = ''RathamCloud-vps-7-1''"
    by (simp_all add: slots_get_def active_get_def vps_get_def hosted_eval str_def digits.simps)
  from ports_add_outcomes [OF h1 h2, of calm_env 80] nxt q
  show ?thesis using h1 h2
    by (simp add: Let_def calm_env_def)
qed

text \<open>
  C3, counterexample. User 7 holds the forward of host port 10000. The executor refuses
  the removal of its TCP rule. The command answers "Failed" and the record is still in the
  table.
\<close>

theorem record_kept_when_removal_fails:
  "fst (ports_command (refusing ''RTC config device remove RathamCloud-vps-7-1 port-10000-tcp'')
          7 ''remove'' (Some 10000) None forwarded)
     = [create_error_embed ''Failed'']
   \<and> active_get (snd (ports_command (refusing ''RTC config device remove RathamCloud-vps-7-1 port-10000-tcp'')
          7 ''remove'' (Some 10000) None forwarded)) ''7''
     = [\<lparr>container = ''RathamCloud-vps-7-1'', internal_port = 80, host_port = 10000\<rparr>]"
  by (simp add: ports_command_def ports_remove_def forwarded_eval Let_def active_get_def
      execute_RTC_def calm_env_def refusing_def error_line_def error_text_def str_def digits.simps remove_tcp_def remove_udp_def)

text \<open>
  C3, as the code has it. For a host port found in the caller's list, the command issues
  the removal of the TCP rule and then of the UDP rule, and removes the record only after
  both succeeded, and then saves. When the first removal fails the second is not issued;
  when either fails the record stays in the table, nothing is saved and the command answers
  "Failed".
\<close>

theorem ports_remove_outcomes:
  assumes "find (\<lambda>p. host_port p = arg1) (active_get w (str author)) = Some found"
  shows
    "let user_id = str author;
         n = length (rtc_calls w);
         res = ports_command e author ''remove'' (Some arg1) a2 w
     in case rtc e n (remove_tcp (container found) arg1) of
          Failed m \<Rightarrow>
            fst res = [create_error_embed ''Failed'']
            \<and> rtc_calls (snd res) = rtc_calls w @ [(remove_tcp (container found) arg1, Failed m)]
            \<and> port_data (snd res) = port_data w
            \<and> save_calls (snd res) = save_calls w
        | Succeeded \<Rightarrow>
            (case rtc e (Suc n) (remove_udp (container found) arg1) of
               Failed m \<Rightarrow>
                 fst res = [create_error_embed ''Failed'']
                 \<and> rtc_calls (snd res) = rtc_calls w @
                      [(remove_tcp (container found) arg1, Succeeded),
                       (remove_udp (container found) arg1, Failed m)]
                 \<and> port_data (snd res) = port_data w
                 \<and> save_calls (snd res) = save_calls w
             | Succeeded \<Rightarrow>
                 fst res = [create_success_embed ''Port Forward Removed'']
                 \<and> rtc_calls (snd res) = rtc_calls w @
                      [(remove_tcp (container found) arg1, Succeeded),
                       (remove_udp (container found) arg1, Succeeded)]
                 \<and> active_get (snd res) user_id = remove1 found (active_get w user_id)
                 \<and> save_calls (snd res) = Suc (save_calls w))"
proof -
  note defs = ports_command_def ports_remove_def Let_def execute_all_pair
  show ?thesis
  proof (cases "rtc e (length (rtc_calls w)) (remove_tcp (container found) arg1)")
    case (Failed m)
    then show ?thesis using assms by (simp add: defs del: execute_all.simps)
  next
    case tcp: Succeeded
    show ?thesis
    proof (cases "rtc e (Suc (length (rtc_calls w))) (remove_udp (container found) arg1)")
      case (Failed m)
      then show ?thesis using assms tcp by (simp add: defs del: execute_all.simps)
    next
      case Succeeded
      have "active_get (w\<lparr>rtc_calls := c\<rparr>) u = active_get w u" for c u
        by (simp add: active_get_def)
      then show ?thesis using assms tcp Succeeded
        by (simp add: defs active_get_def set_active_def update_conv' del: execute_all.simps)
    qed
  qed
qed

theorem ports_remove_outcomes_witness:
  "find (\<lambda>p. host_port p = 10000) (active_get forwarded (str 7))
     = Some \<lparr>container = ''RathamCloud-vps-7-1'', internal_port = 80, host_port = 10000\<rparr>
   \<and> fst (ports_command calm_env 7 ''remove'' (Some 10000) None forwarded)
       = [create_success_embed ''Port Forward Removed'']
   \<and> active_get (snd (ports_command calm_env 7 ''remove'' (Some 10000) None forwarded)) (str 7) = []"
proof -
  have a: "active_get forwarded (str 7)
      = [\<lparr>container = ''RathamCloud-vps-7-1'', internal_port = 80, host_port = 10000\<rparr>]"
    by (simp add: active_get_def forwarded_eval str_def digits.simps)
  have h: "find (\<lambda>p. host_port p = 10000) (active_get forwarded (str 7))
     = Some \<lparr>container = ''RathamCloud-vps-7-1'', internal_port = 80, host_port = 10000\<rparr>"
    by (simp add: a)
  from ports_remove_outcomes [OF h, of calm_env None]
  show ?thesis using h
    by (simp add: Let_def calm_env_def a)
qed

section \<open>Creating an instance\<close>



lemma execute_all_clock:
  "execute_all e cs w = (r, w1) \<Longrightarrow> clock_reads w1 = clock_reads w"
  using execute_all_memory(9) [of e cs w] by simp




section \<open>Names of new instances\<close>

lemma create_calm_again:
  "map_of (vps_data w) ''7'' = Some l \<Longrightarrow>
     vps_data (snd (create_vps default_settings calm_env 2 1 10 7 w))
       = AList.update ''7''
           (l @ [vps_info (new_container_name ''7'' (int (length l) + 1)) 2 1 10 ''2024-05-01T12:00:00''])
           (vps_data w)"
  by (simp add: create_vps_def Let_def vps_get_def create_commands_def execute_RTC_def calm_env_def
      str_def digits.simps)

lemma delete_calm_first:
  "vps_data w = [(''7'', [a, b])] \<Longrightarrow> vps_data (snd (delete_vps calm_env 7 1 w)) = [(''7'', [b])]"
  by (simp add: delete_vps_def Let_def vps_get_def execute_RTC_def calm_env_def str_def digits.simps)

lemma fresh_eval: "vps_data fresh = []"
  by (simp add: fresh_def run_defs)

lemma create_calm_first:
  "vps_data w = [] \<Longrightarrow>
     vps_data (snd (create_vps default_settings calm_env 2 1 10 7 w))
       = [(''7'', [vps_info (new_container_name ''7'' 1) 2 1 10 ''2024-05-01T12:00:00''])]"
  by (simp add: create_vps_def Let_def vps_get_def create_commands_def execute_RTC_def calm_env_def
      str_def digits.simps)

text \<open>
  C7. User 7 gets two instances, the first is deleted, and a third is created. The third
  gets the name of the second, which is still in the store: the name is built from the
  length of the owner's list, and the list has shrunk.
\<close>

theorem new_name_repeats_after_delete:
  "map container_name (vps_get
      (snd (delete_vps calm_env 7 1
         (snd (create_vps default_settings calm_env 2 1 10 7
            (snd (create_vps default_settings calm_env 2 1 10 7 fresh)))))) ''7'')
     = [''RathamCloud-vps-7-2'']
   \<and> map container_name (vps_get
      (snd (create_vps default_settings calm_env 2 1 10 7
         (snd (delete_vps calm_env 7 1
            (snd (create_vps default_settings calm_env 2 1 10 7
               (snd (create_vps default_settings calm_env 2 1 10 7 fresh)))))))) ''7'')
     = [''RathamCloud-vps-7-2'', ''RathamCloud-vps-7-2'']"
proof -
  let ?w1 = "snd (create_vps default_settings calm_env 2 1 10 7 fresh)"
  let ?w2 = "snd (create_vps default_settings calm_env 2 1 10 7 ?w1)"
  let ?w3 = "snd (delete_vps calm_env 7 1 ?w2)"
  let ?w4 = "snd (create_vps default_settings calm_env 2 1 10 7 ?w3)"
  let ?v = "\<lambda>n. vps_info (new_container_name ''7'' n) 2 1 10 ''2024-05-01T12:00:00''"
  have d1: "vps_data ?w1 = [(''7'', [?v 1])]"
    using create_calm_first [OF fresh_eval] .
  have "map_of (vps_data ?w1) ''7'' = Some [?v 1]" by (simp add: d1)
  from create_calm_again [OF this] have d2: "vps_data ?w2 = [(''7'', [?v 1, ?v 2])]"
    by (simp add: d1)
  from delete_calm_first [OF d2] have d3: "vps_data ?w3 = [(''7'', [?v 2])]" .
  have "map_of (vps_data ?w3) ''7'' = Some [?v 2]" by (simp add: d3)
  from create_calm_again [OF this] have d4: "vps_data ?w4 = [(''7'', [?v 2, ?v 2])]"
    by (simp add: d3)
  have n: "container_name (?v 2) = ''RathamCloud-vps-7-2''"
    by (simp add: vps_info_def new_container_name_def str_def digits.simps)
  show ?thesis
    by (simp add: vps_get_def d3 d4 n)
qed

section \<open>The instance monitor\<close>

lemma vps_at_put_vps_other:
  "q \<noteq> p \<Longrightarrow> vps_at (put_vps q v' w) p = vps_at w p"
proof -
  assume ne: "q \<noteq> p"
  obtain qi qj where q: "q = (qi, qj)" by (cases q)
  obtain pi pj where p: "p = (pi, pj)" by (cases p)
  show ?thesis
  proof (cases "pi = qi")
    case False
    then show ?thesis by (simp add: vps_at_def put_vps_def p q)
  next
    case True
    with ne p q have "pj \<noteq> qj" by simp
    then show ?thesis using True
      by (cases "qi < length (vps_data w)") (simp_all add: vps_at_def put_vps_def p q)
  qed
qed

lemma vps_at_put_vps_same:
  "vps_at w p = Some v \<Longrightarrow> vps_at (put_vps p v' w) p = Some v'"
  by (cases p) (simp add: vps_at_def put_vps_def split: if_splits)

lemma vps_at_cong: "vps_data w' = vps_data w \<Longrightarrow> vps_at w' p = vps_at w p"
  by (simp add: vps_at_def)

lemma put_vps_cong: "vps_data w' = vps_data w \<Longrightarrow> vps_data (put_vps p v w') = vps_data (put_vps p v w)"
  by (simp add: put_vps_def)

text \<open>What one visit does, case by case.\<close>

lemma monitor_vps_skip:
  "vps_at w p = Some v \<Longrightarrow> \<not> monitored v \<Longrightarrow> monitor_vps cfg e p w = w"
  by (simp add: monitor_vps_def)

lemma monitor_vps_calm:
  "vps_at w p = Some v \<Longrightarrow> monitored v \<Longrightarrow> \<not> breach cfg e v \<Longrightarrow>
     monitor_vps cfg e p w
       = w\<lparr>sampled := sampled w @ [(container_name v, ''top''), (container_name v, ''free'')]\<rparr>"
  by (simp add: monitor_vps_def breach_def Let_def)

lemma monitor_vps_stop_failed:
  assumes "vps_at w p = Some v" "monitored v" "breach cfg e v"
    and "rtc e (length (rtc_calls w)) (''RTC stop '' @ container_name v) = Failed m"
  shows "vps_data (monitor_vps cfg e p w) = vps_data w"
    and "rtc_calls (monitor_vps cfg e p w) = rtc_calls w @ [(''RTC stop '' @ container_name v, Failed m)]"
    and "save_calls (monitor_vps cfg e p w) = save_calls w"
    and "last (log (monitor_vps cfg e p w))
           = LogError (''Failed to suspend '' @ container_name v @ '': '' @ error_text m)"
  using assms by (simp_all add: monitor_vps_def breach_def Let_def execute_RTC_def)

lemma save_data_ok:
  "fs e (save_calls w) = WriteOk \<Longrightarrow> vps_file (disk (save_data e w)) = Loaded (vps_data w)"
  by (simp add: save_data_def Let_def)

lemma monitor_vps_suspends_eq:
  assumes "vps_at w p = Some v" "monitored v" "breach cfg e v"
    and "rtc e (length (rtc_calls w)) (''RTC stop '' @ container_name v) = Succeeded"
  shows "\<exists>w1. monitor_vps cfg e p w
           = save_data e (put_vps p (suspend_auto (now e (clock_reads w))
                (suspension_reason cfg e (get_container_cpu_pct e (container_name v))
                   (get_container_ram_pct e (container_name v))) v) w1)
         \<and> vps_data w1 = vps_data w \<and> save_calls w1 = save_calls w
         \<and> rtc_calls w1 = rtc_calls w @ [(''RTC stop '' @ container_name v, Succeeded)]"
proof -
  let ?cn = "container_name v"
  let ?why = "suspension_reason cfg e (get_container_cpu_pct e ?cn) (get_container_ram_pct e ?cn)"
  let ?w1 = "w\<lparr>sampled := sampled w @ [(?cn, ''top''), (?cn, ''free'')],
               log := log w @ [LogWarning (''Suspending '' @ ?cn @ '': '' @ ?why)],
               rtc_calls := rtc_calls w @ [(''RTC stop '' @ ?cn, Succeeded)],
               clock_reads := Suc (clock_reads w)\<rparr>"
  have "monitor_vps cfg e p w = save_data e (put_vps p (suspend_auto (now e (clock_reads w)) ?why v) ?w1)"
    using assms by (simp add: monitor_vps_def breach_def Let_def execute_RTC_def)
  moreover have "vps_data ?w1 = vps_data w \<and> save_calls ?w1 = save_calls w
      \<and> rtc_calls ?w1 = rtc_calls w @ [(''RTC stop '' @ ?cn, Succeeded)]" by simp
  ultimately show ?thesis by blast
qed

lemma put_vps_frame [simp]:
  "rtc_calls (put_vps p v w) = rtc_calls w"
  "save_calls (put_vps p v w) = save_calls w"
  by (simp_all add: put_vps_def)

lemma monitor_vps_suspends:
  assumes "vps_at w p = Some v" "monitored v" "breach cfg e v"
    and "rtc e (length (rtc_calls w)) (''RTC stop '' @ container_name v) = Succeeded"
  shows "vps_data (monitor_vps cfg e p w)
           = vps_data (put_vps p (suspend_auto (now e (clock_reads w))
                (suspension_reason cfg e (get_container_cpu_pct e (container_name v))
                   (get_container_ram_pct e (container_name v))) v) w)"
    and "rtc_calls (monitor_vps cfg e p w) = rtc_calls w @ [(''RTC stop '' @ container_name v, Succeeded)]"
    and "save_calls (monitor_vps cfg e p w) = Suc (save_calls w)"
    and "fs e (save_calls w) = WriteOk \<Longrightarrow>
           vps_file (disk (monitor_vps cfg e p w)) = Loaded (vps_data (monitor_vps cfg e p w))"
proof -
  from monitor_vps_suspends_eq [OF assms] obtain w1 where
    eq: "monitor_vps cfg e p w
           = save_data e (put_vps p (suspend_auto (now e (clock_reads w))
                (suspension_reason cfg e (get_container_cpu_pct e (container_name v))
                   (get_container_ram_pct e (container_name v))) v) w1)"
    and w1: "vps_data w1 = vps_data w" "save_calls w1 = save_calls w"
      "rtc_calls w1 = rtc_calls w @ [(''RTC stop '' @ container_name v, Succeeded)]"
    by blast
  show "vps_data (monitor_vps cfg e p w)
           = vps_data (put_vps p (suspend_auto (now e (clock_reads w))
                (suspension_reason cfg e (get_container_cpu_pct e (container_name v))
                   (get_container_ram_pct e (container_name v))) v) w)"
    by (simp add: eq put_vps_cong [OF w1(1)])
  show "rtc_calls (monitor_vps cfg e p w) = rtc_calls w @ [(''RTC stop '' @ container_name v, Succeeded)]"
    by (simp add: eq w1)
  show "save_calls (monitor_vps cfg e p w) = Suc (save_calls w)"
    by (simp add: eq w1)
  show "vps_file (disk (monitor_vps cfg e p w)) = Loaded (vps_data (monitor_vps cfg e p w))"
    if "fs e (save_calls w) = WriteOk"
    using that by (simp add: eq save_data_ok w1)
qed

lemma monitor_vps_data:
  "vps_data (monitor_vps cfg e q w) = vps_data w
   \<or> (\<exists>v'. vps_data (monitor_vps cfg e q w) = vps_data (put_vps q v' w))"
proof (cases "vps_at w q")
  case None
  then show ?thesis by (simp add: monitor_vps_def)
next
  case (Some v)
  show ?thesis
  proof (cases "monitored v \<and> breach cfg e v")
    case False
    then show ?thesis
      using monitor_vps_skip [OF Some, of cfg e] monitor_vps_calm [OF Some, of cfg e]
      by (cases "monitored v") auto
  next
    case True
    show ?thesis
    proof (cases "rtc e (length (rtc_calls w)) (''RTC stop '' @ container_name v)")
      case Succeeded
      from monitor_vps_suspends(1) [OF Some _ _ this] True show ?thesis by blast
    next
      case (Failed m)
      from monitor_vps_stop_failed(1) [OF Some _ _ this] True show ?thesis by blast
    qed
  qed
qed

lemma monitor_vps_other:
  "q \<noteq> p \<Longrightarrow> vps_at (monitor_vps cfg e q w) p = vps_at w p"
  using monitor_vps_data [of cfg e q w] vps_at_put_vps_other [of q p]
  by (metis vps_at_cong)

text \<open>A loop whose steps other than \<open>k0\<close> leave position \<open>p\<close> alone visits it once.\<close>

lemma fold_leaves:
  assumes "\<And>k w. k \<in> set ks \<Longrightarrow> vps_at (f k w) p = vps_at w p"
  shows "vps_at (fold f ks w) p = vps_at w p"
  using assms by (induction ks arbitrary: w) simp_all

lemma fold_visits_once:
  assumes frame: "\<And>k w. k \<noteq> k0 \<Longrightarrow> vps_at (f k w) p = vps_at w p"
    and "distinct ks" and "k0 \<in> set ks" and "vps_at w p = Some v"
  shows "\<exists>w1. vps_at w1 p = Some v \<and> vps_at (fold f ks w) p = vps_at (f k0 w1) p"
  using assms(2-)
proof (induction ks arbitrary: w)
  case Nil
  then show ?case by simp
next
  case (Cons k ks)
  show ?case
  proof (cases "k = k0")
    case True
    with Cons.prems have "k0 \<notin> set ks" by simp
    have notin: "k0 \<notin> set ks" by fact
    have "vps_at (f k' w') p = vps_at w' p" if "k' \<in> set ks" for k' w'
    proof -
      from that notin have "k' \<noteq> k0" by auto
      then show ?thesis by (rule frame)
    qed
    then have "vps_at (fold f ks (f k0 w)) p = vps_at (f k0 w) p"
      by (rule fold_leaves)
    then show ?thesis using True Cons.prems(3) by auto
  next
    case False
    with Cons.prems have "distinct ks" "k0 \<in> set ks" "vps_at (f k w) p = Some v"
      by (simp_all add: frame)
    from Cons.IH [OF this] show ?thesis by simp
  qed
qed

lemma monitor_owner_other:
  "i \<noteq> fst p \<Longrightarrow> vps_at (monitor_owner cfg e i w) p = vps_at w p"
  unfolding monitor_owner_def
  by (rule fold_leaves) (rule monitor_vps_other, auto)

lemma monitor_owner_visits_once:
  assumes "vps_at w p = Some v"
  shows "\<exists>w1. vps_at w1 p = Some v
     \<and> vps_at (monitor_owner cfg e (fst p) w) p = vps_at (monitor_vps cfg e p w1) p"
proof -
  have frame: "\<And>j w. j \<noteq> snd p \<Longrightarrow> vps_at (monitor_vps cfg e (fst p, j) w) p = vps_at w p"
    by (rule monitor_vps_other) (cases p, auto)
  from assms have "snd p \<in> set [0..<length (snd (vps_data w ! fst p))]"
    by (simp add: vps_at_def split: if_splits)
  from fold_visits_once [of "snd p" "\<lambda>j. monitor_vps cfg e (fst p, j)" p, OF frame distinct_upt this assms]
  show ?thesis by (simp add: monitor_owner_def)
qed

lemma vps_monitor_tick_visits_once:
  assumes "vps_at w p = Some v"
  shows "\<exists>w1. vps_at w1 p = Some v
     \<and> vps_at (vps_monitor_tick cfg e w) p = vps_at (monitor_vps cfg e p w1) p"
proof -
  from assms have "fst p \<in> set [0..<length (vps_data w)]"
    by (simp add: vps_at_def split: if_splits)
  from fold_visits_once [of "fst p" "monitor_owner cfg e" p, OF monitor_owner_other distinct_upt this assms]
  obtain w0 where w0: "vps_at w0 p = Some v"
    "vps_at (vps_monitor_tick cfg e w) p = vps_at (monitor_owner cfg e (fst p) w0) p"
    by (auto simp: vps_monitor_tick_def)
  from monitor_owner_visits_once [OF w0(1), of cfg e] w0(2) show ?thesis by auto
qed


lemma hosted_first:
  "vps_at hosted (0, 0) =
     Some \<lparr>container_name = ''RathamCloud-vps-7-1'', ram = ''2GB'', cpu = ''1'',
            storage = ''10GB'', config = ''2GB RAM / 1 CPU / 10GB Disk'',
            status = Some ''running'', suspended = Some False, suspension_history = Some [],
            created_at = ''2024-05-01T12:00:00'', shared_with = []\<rparr>"
  by (simp add: vps_at_def hosted_eval)

lemma hosted_tick:
  "vps_monitor_tick cfg e hosted = monitor_vps cfg e (0, 0) hosted"
  by (simp add: vps_monitor_tick_def monitor_owner_def hosted_eval)

text \<open>
  C5, counterexample. The instance of user 7 is running at 92 percent CPU and 40 percent
  RAM with both thresholds at 90. When the executor refuses the stop command, the tick
  leaves the instance running with no history entry. When the executor accepts it, the
  entry names "RathamCloud Auto-System" as the actor, and its reason lists both readings
  and both thresholds.
\<close>

theorem breach_without_suspension:
  "map_option status (vps_at (vps_monitor_tick default_settings
        (busy (refusing ''RTC stop RathamCloud-vps-7-1'')) hosted) (0, 0)) = Some (Some ''running'')
   \<and> map_option history_get (vps_at (vps_monitor_tick default_settings
        (busy (refusing ''RTC stop RathamCloud-vps-7-1'')) hosted) (0, 0)) = Some []
   \<and> map_option history_get (vps_at (vps_monitor_tick default_settings (busy calm_env) hosted) (0, 0))
       = Some [\<lparr>time = ''2024-05-01T12:00:00'',
                reason = ''High resource usage: CPU 92.0%, RAM 40.0% (threshold: 90% CPU / 90% RAM)'',
                by_actor = ''RathamCloud Auto-System''\<rparr>]"
  by (simp add: hosted_tick monitor_vps_def hosted_first monitored_def Let_def busy_def refusing_def error_line_def error_text_def
      calm_env_def default_settings_def execute_RTC_def vps_at_def put_vps_def hosted_eval
      suspend_auto_def history_get_def suspension_reason_def str_def digits.simps)

text \<open>
  C5, as the code has it. In one tick, run without other commands in between, the instance
  at each position is visited once. An instance that is not running, or is flagged
  suspended, is not sampled and is left as it was. A running, unsuspended instance is
  sampled; below both thresholds nothing else happens. Above a threshold the monitor
  issues the stop command: when it fails the record is left as it was, nothing is saved
  and the failure is logged; when it succeeds the record gets status "suspended", the flag, and exactly one
  more history entry with the time read then, the reason text and the actor
  "RathamCloud Auto-System", and \<^verbatim>\<open>save_data\<close> is called, which writes the new records
  when the disk accepts the write.
\<close>

theorem vps_monitor_tick_effect:
  assumes "vps_at w p = Some v"
  shows
    "(\<not> monitored v \<longrightarrow> vps_at (vps_monitor_tick cfg e w) p = Some v)
     \<and> (\<exists>w1. vps_at w1 p = Some v
          \<and> vps_at (vps_monitor_tick cfg e w) p = vps_at (monitor_vps cfg e p w1) p
          \<and> (if \<not> monitored v then monitor_vps cfg e p w1 = w1
              else if \<not> breach cfg e v
                then monitor_vps cfg e p w1
                       = w1\<lparr>sampled := sampled w1 @ [(container_name v, ''top''), (container_name v, ''free'')]\<rparr>
              else case rtc e (length (rtc_calls w1)) (''RTC stop '' @ container_name v) of
                     Failed m \<Rightarrow>
                       vps_at (monitor_vps cfg e p w1) p = Some v
                       \<and> rtc_calls (monitor_vps cfg e p w1)
                           = rtc_calls w1 @ [(''RTC stop '' @ container_name v, Failed m)]
                       \<and> save_calls (monitor_vps cfg e p w1) = save_calls w1
                       \<and> last (log (monitor_vps cfg e p w1))
                           = LogError (''Failed to suspend '' @ container_name v @ '': '' @ error_text m)
                   | Succeeded \<Rightarrow>
                       vps_at (monitor_vps cfg e p w1) p
                         = Some (v\<lparr>status := Some ''suspended'', suspended := Some True,
                                   suspension_history := Some (history_get v @
                                     [\<lparr>time = now e (clock_reads w1),
                                       reason = suspension_reason cfg e
                                         (get_container_cpu_pct e (container_name v))
                                         (get_container_ram_pct e (container_name v)),
                                       by_actor = ''RathamCloud Auto-System''\<rparr>])\<rparr>)
                       \<and> rtc_calls (monitor_vps cfg e p w1)
                           = rtc_calls w1 @ [(''RTC stop '' @ container_name v, Succeeded)]
                       \<and> save_calls (monitor_vps cfg e p w1) = Suc (save_calls w1)
                       \<and> (fs e (save_calls w1) = WriteOk \<longrightarrow>
                            vps_file (disk (monitor_vps cfg e p w1))
                              = Loaded (vps_data (monitor_vps cfg e p w1)))))"
proof -
  from vps_monitor_tick_visits_once [OF assms, of cfg e] obtain w1 where
    w1: "vps_at w1 p = Some v"
    and once: "vps_at (vps_monitor_tick cfg e w) p = vps_at (monitor_vps cfg e p w1) p"
    by blast
  have skip: "vps_at (vps_monitor_tick cfg e w) p = Some v" if "\<not> monitored v"
    using monitor_vps_skip [OF w1 that, of cfg e] once w1 by simp
  have visit: "if \<not> monitored v then monitor_vps cfg e p w1 = w1
      else if \<not> breach cfg e v
        then monitor_vps cfg e p w1
               = w1\<lparr>sampled := sampled w1 @ [(container_name v, ''top''), (container_name v, ''free'')]\<rparr>
      else case rtc e (length (rtc_calls w1)) (''RTC stop '' @ container_name v) of
             Failed m \<Rightarrow>
               vps_at (monitor_vps cfg e p w1) p = Some v
               \<and> rtc_calls (monitor_vps cfg e p w1)
                   = rtc_calls w1 @ [(''RTC stop '' @ container_name v, Failed m)]
               \<and> save_calls (monitor_vps cfg e p w1) = save_calls w1
               \<and> last (log (monitor_vps cfg e p w1))
                   = LogError (''Failed to suspend '' @ container_name v @ '': '' @ error_text m)
           | Succeeded \<Rightarrow>
               vps_at (monitor_vps cfg e p w1) p
                 = Some (v\<lparr>status := Some ''suspended'', suspended := Some True,
                           suspension_history := Some (history_get v @
                             [\<lparr>time = now e (clock_reads w1),
                               reason = suspension_reason cfg e
                                 (get_container_cpu_pct e (container_name v))
                                 (get_container_ram_pct e (container_name v)),
                               by_actor = ''RathamCloud Auto-System''\<rparr>])\<rparr>)
               \<and> rtc_calls (monitor_vps cfg e p w1)
                   = rtc_calls w1 @ [(''RTC stop '' @ container_name v, Succeeded)]
               \<and> save_calls (monitor_vps cfg e p w1) = Suc (save_calls w1)
               \<and> (fs e (save_calls w1) = WriteOk \<longrightarrow>
                    vps_file (disk (monitor_vps cfg e p w1))
                      = Loaded (vps_data (monitor_vps cfg e p w1)))"
  proof (cases "monitored v")
    case False
    then show ?thesis using monitor_vps_skip [OF w1 False, of cfg e] by simp
  next
    case mon: True
    show ?thesis
    proof (cases "breach cfg e v")
      case False
      then show ?thesis using mon monitor_vps_calm [OF w1 mon False] by simp
    next
      case br: True
      show ?thesis
      proof (cases "rtc e (length (rtc_calls w1)) (''RTC stop '' @ container_name v)")
        case (Failed m)
        note f = monitor_vps_stop_failed [OF w1 mon br Failed]
        have "vps_at (monitor_vps cfg e p w1) p = Some v"
          using vps_at_cong [OF f(1)] w1 by simp
        then show ?thesis using mon br Failed f by simp
      next
        case Succeeded
        note s = monitor_vps_suspends [OF w1 mon br Succeeded]
        have "vps_at (monitor_vps cfg e p w1) p
            = Some (suspend_auto (now e (clock_reads w1))
                (suspension_reason cfg e (get_container_cpu_pct e (container_name v))
                   (get_container_ram_pct e (container_name v))) v)"
          using vps_at_cong [OF s(1)] vps_at_put_vps_same [OF w1] by simp
        then show ?thesis using mon br Succeeded s(2,3,4)
          by (simp add: suspend_auto_def)
      qed
    qed
  qed
  from skip w1 once visit show ?thesis by blast
qed


theorem vps_monitor_tick_effect_witness:
  "vps_at hosted (0, 0) =
     Some \<lparr>container_name = ''RathamCloud-vps-7-1'', ram = ''2GB'', cpu = ''1'',
            storage = ''10GB'', config = ''2GB RAM / 1 CPU / 10GB Disk'',
            status = Some ''running'', suspended = Some False, suspension_history = Some [],
            created_at = ''2024-05-01T12:00:00'', shared_with = []\<rparr>
   \<and> map_option status (vps_at (vps_monitor_tick default_settings (busy calm_env) hosted) (0, 0))
       = Some (Some ''suspended'')
   \<and> map_option suspended (vps_at (vps_monitor_tick default_settings (busy calm_env) hosted) (0, 0))
       = Some (Some True)
   \<and> map_option (length \<circ> history_get)
         (vps_at (vps_monitor_tick default_settings (busy calm_env) hosted) (0, 0)) = Some 1"
proof -
  let ?v = "\<lparr>container_name = ''RathamCloud-vps-7-1'', ram = ''2GB'', cpu = ''1'',
            storage = ''10GB'', config = ''2GB RAM / 1 CPU / 10GB Disk'',
            status = Some ''running'', suspended = Some False, suspension_history = Some [],
            created_at = ''2024-05-01T12:00:00'', shared_with = []\<rparr>"
  let ?e = "busy calm_env"
  have mon: "monitored ?v" by (simp add: monitored_def)
  have br: "breach default_settings ?e ?v"
    by (simp add: breach_def busy_def default_settings_def)
  have ok: "rtc ?e n c = Succeeded" for n c by (simp add: busy_def calm_env_def)
  from vps_monitor_tick_effect [OF hosted_first, of default_settings ?e] obtain w1 where
    "vps_at (vps_monitor_tick default_settings ?e hosted) (0, 0)
       = vps_at (monitor_vps default_settings ?e (0, 0) w1) (0, 0)"
    and "vps_at (monitor_vps default_settings ?e (0, 0) w1) (0, 0)
       = Some (?v\<lparr>status := Some ''suspended'', suspended := Some True,
                   suspension_history := Some (history_get ?v @
                     [\<lparr>time = now ?e (clock_reads w1),
                       reason = suspension_reason default_settings ?e
                         (get_container_cpu_pct ?e (container_name ?v))
                         (get_container_ram_pct ?e (container_name ?v)),
                       by_actor = ''RathamCloud Auto-System''\<rparr>])\<rparr>)"
    using mon br ok by auto
  then show ?thesis
    using hosted_first by (simp add: history_get_def)
qed

section \<open>The host monitor and its switch\<close>

lemma control_keeps:
  "cpu_monitor_task (snd (cpu_monitor_control action w)) = cpu_monitor_task w"
  "sampled (snd (cpu_monitor_control action w)) = sampled w"
  "rtc_calls (snd (cpu_monitor_control action w)) = rtc_calls w"
  "vps_data (snd (cpu_monitor_control action w)) = vps_data w"
  by (simp_all add: cpu_monitor_control_def)

lemma wake_dead: "\<not> cpu_monitor_task w \<Longrightarrow> cpu_monitor_wake cfg e w = w"
  by (simp add: cpu_monitor_wake_def)

lemma host_run_dead:
  "\<not> cpu_monitor_task w \<Longrightarrow>
     \<not> cpu_monitor_task (host_run cfg e evs w) \<and> sampled (host_run cfg e evs w) = sampled w
     \<and> rtc_calls (host_run cfg e evs w) = rtc_calls w \<and> vps_data (host_run cfg e evs w) = vps_data w"
proof (induction evs arbitrary: w)
  case Nil
  then show ?case by simp
next
  case (Cons ev evs)
  show ?case
  proof (cases ev)
    case (Control action)
    from Cons.prems have "\<not> cpu_monitor_task (snd (cpu_monitor_control action w))"
      by (simp add: control_keeps)
    from Cons.IH [OF this] show ?thesis using Control by (simp add: control_keeps)
  next
    case Wake
    from Cons.IH [OF Cons.prems] show ?thesis using Wake Cons.prems by (simp add: wake_dead)
  qed
qed

lemma disable_then_wake:
  "\<not> cpu_monitor_task (cpu_monitor_wake cfg e (snd (cpu_monitor_control ''disable'' w)))"
  "sampled (cpu_monitor_wake cfg e (snd (cpu_monitor_control ''disable'' w))) = sampled w"
  "rtc_calls (cpu_monitor_wake cfg e (snd (cpu_monitor_control ''disable'' w))) = rtc_calls w"
  "vps_data (cpu_monitor_wake cfg e (snd (cpu_monitor_control ''disable'' w))) = vps_data w"
  by (simp_all add: cpu_monitor_control_def cpu_monitor_wake_def lower_def lower_char_def)

lemma wake_alive:
  "cpu_monitor_task w \<Longrightarrow> cpu_monitor_active w \<Longrightarrow> cpu_monitor_task (cpu_monitor_wake cfg e w)"
  by (simp add: cpu_monitor_wake_def Let_def execute_RTC_def split: exec_result.split)

text \<open>
  C9. Once the task has tested the flag while it was false, it has left its loop: whatever
  commands follow, \<^verbatim>\<open>enable\<close> among them, and however often the task would have woken,
  nothing is sampled, no command is issued and no instance changes. (Re-enabling before the
  task's next test does keep the loop going, and an iteration with the flag set never ends
  the loop, whatever the sampling and the executor do.)
\<close>

theorem host_monitor_gone_after_disable:
  "\<not> cpu_monitor_task (host_run cfg e (Control ''disable'' # Wake # evs) w)
   \<and> sampled (host_run cfg e (Control ''disable'' # Wake # evs) w) = sampled w
   \<and> rtc_calls (host_run cfg e (Control ''disable'' # Wake # evs) w) = rtc_calls w
   \<and> vps_data (host_run cfg e (Control ''disable'' # Wake # evs) w) = vps_data w
   \<and> cpu_monitor_active (host_run default_settings host_busy
        [Control ''disable'', Wake, Control ''enable'', Wake, Wake] hosted)
   \<and> sampled (host_run default_settings host_busy
        [Control ''disable'', Wake, Control ''enable'', Wake, Wake] hosted) = []
   \<and> sampled (host_run default_settings host_busy
        [Control ''disable'', Control ''enable'', Wake] hosted) = [(''host'', ''top'')]
   \<and> cpu_monitor_task (cpu_monitor_wake cfg e (w\<lparr>cpu_monitor_task := True, cpu_monitor_active := True\<rparr>))"
proof -
  let ?w = "cpu_monitor_wake cfg e (snd (cpu_monitor_control ''disable'' w))"
  have "\<not> cpu_monitor_task ?w" by (rule disable_then_wake(1))
  from host_run_dead [OF this, of cfg e evs]
  have gen: "\<not> cpu_monitor_task (host_run cfg e (Control ''disable'' # Wake # evs) w)
   \<and> sampled (host_run cfg e (Control ''disable'' # Wake # evs) w) = sampled w
   \<and> rtc_calls (host_run cfg e (Control ''disable'' # Wake # evs) w) = rtc_calls w
   \<and> vps_data (host_run cfg e (Control ''disable'' # Wake # evs) w) = vps_data w"
    by (simp add: disable_then_wake)
  have s0: "sampled hosted = []" "cpu_monitor_task hosted" "cpu_monitor_active hosted"
    by (simp_all add: hosted_def fresh_def run_defs)
  have c1: "cpu_monitor_active (host_run default_settings host_busy
        [Control ''disable'', Wake, Control ''enable'', Wake, Wake] hosted)"
    by (simp add: cpu_monitor_control_def cpu_monitor_wake_def lower_def lower_char_def s0)
  have c2: "sampled (host_run default_settings host_busy
        [Control ''disable'', Wake, Control ''enable'', Wake, Wake] hosted) = []"
    by (simp add: cpu_monitor_control_def cpu_monitor_wake_def lower_def lower_char_def s0)
  have c3: "sampled (host_run default_settings host_busy
        [Control ''disable'', Control ''enable'', Wake] hosted) = [(''host'', ''top'')]"
    by (simp add: cpu_monitor_control_def cpu_monitor_wake_def lower_def lower_char_def s0
        Let_def execute_RTC_def host_busy_def calm_env_def default_settings_def)
  have c4: "cpu_monitor_task (cpu_monitor_wake cfg e (w\<lparr>cpu_monitor_task := True, cpu_monitor_active := True\<rparr>))"
    by (rule wake_alive) simp_all
  from gen c1 c2 c3 c4 show ?thesis by simp
qed

section \<open>A failed save\<close>

lemma in_memory_save_data [simp]: "in_memory (save_data e w) = in_memory w"
  by (simp add: in_memory_def)

lemma execute_RTC_fs [simp]: "execute_RTC (e\<lparr>fs := f\<rparr>) c w = execute_RTC e c w"
  by (simp add: execute_RTC_def)

lemma execute_all_fs [simp]: "execute_all (e\<lparr>fs := f\<rparr>) cs w = execute_all e cs w"
  by (induction cs arbitrary: w) (simp_all split: prod.split sum.split)

lemma admin_add_fs:
  "fst (admin_add cfg (e\<lparr>fs := f\<rparr>) u w) = fst (admin_add cfg e u w)
   \<and> in_memory (snd (admin_add cfg (e\<lparr>fs := f\<rparr>) u w)) = in_memory (snd (admin_add cfg e u w))"
  by (simp add: admin_add_def Let_def)

lemma admin_remove_fs:
  "fst (admin_remove cfg (e\<lparr>fs := f\<rparr>) u w) = fst (admin_remove cfg e u w)
   \<and> in_memory (snd (admin_remove cfg (e\<lparr>fs := f\<rparr>) u w)) = in_memory (snd (admin_remove cfg e u w))"
  by (simp add: admin_remove_def Let_def)

lemma create_vps_fs:
  "fst (create_vps cfg (e\<lparr>fs := f\<rparr>) r c d u w) = fst (create_vps cfg e r c d u w)
   \<and> in_memory (snd (create_vps cfg (e\<lparr>fs := f\<rparr>) r c d u w)) = in_memory (snd (create_vps cfg e r c d u w))"
  by (simp add: create_vps_def Let_def del: execute_all.simps split: prod.split sum.split)

lemma delete_vps_fs:
  "fst (delete_vps (e\<lparr>fs := f\<rparr>) u n w) = fst (delete_vps e u n w)
   \<and> in_memory (snd (delete_vps (e\<lparr>fs := f\<rparr>) u n w)) = in_memory (snd (delete_vps e u n w))"
  by (simp add: delete_vps_def Let_def split: prod.split sum.split)

lemma ports_command_fs:
  "fst (ports_command (e\<lparr>fs := f\<rparr>) u action a1 a2 w) = fst (ports_command e u action a1 a2 w)
   \<and> in_memory (snd (ports_command (e\<lparr>fs := f\<rparr>) u action a1 a2 w))
       = in_memory (snd (ports_command e u action a1 a2 w))"
  by (simp add: ports_command_def ports_add_def ports_remove_def Let_def del: execute_all.simps
      split: prod.split sum.split option.split)

lemma ports_add_user_fs:
  "fst (ports_add_user (e\<lparr>fs := f\<rparr>) n u w) = fst (ports_add_user e n u w)
   \<and> in_memory (snd (ports_add_user (e\<lparr>fs := f\<rparr>) n u w)) = in_memory (snd (ports_add_user e n u w))"
  by (simp add: ports_add_user_def Let_def split: option.split)

lemma monitor_vps_fs:
  "in_memory (monitor_vps cfg (e\<lparr>fs := f\<rparr>) p w) = in_memory (monitor_vps cfg e p w)"
  by (simp add: monitor_vps_def Let_def suspension_reason_def split: prod.split sum.split option.split)

lemma cpu_monitor_wake_fs:
  "in_memory (cpu_monitor_wake cfg (e\<lparr>fs := f\<rparr>) w) = in_memory (cpu_monitor_wake cfg e w)"
  by (simp add: cpu_monitor_wake_def Let_def split: prod.split sum.split)

text \<open>
  C1, counterexample. The disk refuses every write. The main admin adds user 42: the
  command answers "Admin Added", user 42 is in the admin list in memory, no file has been
  written, and the failure is a line of the log.
\<close>

theorem success_reported_without_save:
  "fst (admin_add default_settings disk_full 42 fresh) = [create_success_embed ''Admin Added'']
   \<and> admins_get (snd (admin_add default_settings disk_full 42 fresh)) = [''1210291131301101618'', ''42'']
   \<and> disk (snd (admin_add default_settings disk_full 42 fresh)) = no_files
   \<and> last (log (snd (admin_add default_settings disk_full 42 fresh)))
       = LogError ''Error saving data: [Errno 28] No space left on device''"
  by (simp add: admin_add_def Let_def fresh_def startup_def no_files_def load_vps_data_def
      load_admin_data_def load_port_data_def default_settings_def disk_full_def calm_env_def
      save_data_def admins_get_def str_def digits.simps)

text \<open>
  C1, as the code has it. \<^verbatim>\<open>save_data\<close> catches every exception of its writes and logs
  it. So for every command that changes the store and for both monitors, what the command
  answers and the state in memory after it are the same whatever the disk does: a failed
  save is not reported to the caller, and the change in memory is not rolled back. A save
  that fails leaves the files it has not reached as they were and adds one line to the log.
\<close>

theorem save_outcome_not_surfaced:
  "fst (admin_add cfg (e\<lparr>fs := f\<rparr>) u w) = fst (admin_add cfg e u w)
   \<and> in_memory (snd (admin_add cfg (e\<lparr>fs := f\<rparr>) u w)) = in_memory (snd (admin_add cfg e u w))
   \<and> fst (admin_remove cfg (e\<lparr>fs := f\<rparr>) u w) = fst (admin_remove cfg e u w)
   \<and> in_memory (snd (admin_remove cfg (e\<lparr>fs := f\<rparr>) u w)) = in_memory (snd (admin_remove cfg e u w))
   \<and> fst (create_vps cfg (e\<lparr>fs := f\<rparr>) r c d u w) = fst (create_vps cfg e r c d u w)
   \<and> in_memory (snd (create_vps cfg (e\<lparr>fs := f\<rparr>) r c d u w)) = in_memory (snd (create_vps cfg e r c d u w))
   \<and> fst (delete_vps (e\<lparr>fs := f\<rparr>) u n w) = fst (delete_vps e u n w)
   \<and> in_memory (snd (delete_vps (e\<lparr>fs := f\<rparr>) u n w)) = in_memory (snd (delete_vps e u n w))
   \<and> fst (ports_command (e\<lparr>fs := f\<rparr>) u action a1 a2 w) = fst (ports_command e u action a1 a2 w)
   \<and> in_memory (snd (ports_command (e\<lparr>fs := f\<rparr>) u action a1 a2 w))
       = in_memory (snd (ports_command e u action a1 a2 w))
   \<and> fst (ports_add_user (e\<lparr>fs := f\<rparr>) n u w) = fst (ports_add_user e n u w)
   \<and> in_memory (snd (ports_add_user (e\<lparr>fs := f\<rparr>) n u w)) = in_memory (snd (ports_add_user e n u w))
   \<and> in_memory (monitor_vps cfg (e\<lparr>fs := f\<rparr>) p w) = in_memory (monitor_vps cfg e p w)
   \<and> in_memory (cpu_monitor_wake cfg (e\<lparr>fs := f\<rparr>) w) = in_memory (cpu_monitor_wake cfg e w)
   \<and> in_memory (save_data (e\<lparr>fs := f\<rparr>) w) = in_memory w
   \<and> disk (save_data (e\<lparr>fs := (\<lambda>_. FailVps x)\<rparr>) w) = disk w
   \<and> disk (save_data (e\<lparr>fs := (\<lambda>_. FailAdmin x)\<rparr>) w) = (disk w)\<lparr>vps_file := Loaded (vps_data w)\<rparr>
   \<and> disk (save_data (e\<lparr>fs := (\<lambda>_. FailPort x)\<rparr>) w)
       = (disk w)\<lparr>vps_file := Loaded (vps_data w), admin_file := Loaded (admin_data w)\<rparr>
   \<and> disk (save_data (e\<lparr>fs := (\<lambda>_. WriteOk)\<rparr>) w)
       = \<lparr>vps_file = Loaded (vps_data w), admin_file = Loaded (admin_data w),
          port_file = Loaded (port_data w)\<rparr>
   \<and> log (save_data (e\<lparr>fs := (\<lambda>_. FailVps x)\<rparr>) w) = log w @ [LogError (''Error saving data: '' @ x)]
   \<and> log (save_data (e\<lparr>fs := (\<lambda>_. FailAdmin x)\<rparr>) w) = log w @ [LogError (''Error saving data: '' @ x)]
   \<and> log (save_data (e\<lparr>fs := (\<lambda>_. FailPort x)\<rparr>) w) = log w @ [LogError (''Error saving data: '' @ x)]"
proof -
  have files:
    "disk (save_data (e\<lparr>fs := (\<lambda>_. FailVps x)\<rparr>) w) = disk w"
    "disk (save_data (e\<lparr>fs := (\<lambda>_. FailAdmin x)\<rparr>) w) = (disk w)\<lparr>vps_file := Loaded (vps_data w)\<rparr>"
    "disk (save_data (e\<lparr>fs := (\<lambda>_. FailPort x)\<rparr>) w)
       = (disk w)\<lparr>vps_file := Loaded (vps_data w), admin_file := Loaded (admin_data w)\<rparr>"
    "disk (save_data (e\<lparr>fs := (\<lambda>_. WriteOk)\<rparr>) w)
       = \<lparr>vps_file = Loaded (vps_data w), admin_file = Loaded (admin_data w),
          port_file = Loaded (port_data w)\<rparr>"
    by (simp_all add: save_data_def Let_def)
  have lines:
    "log (save_data (e\<lparr>fs := (\<lambda>_. FailVps x)\<rparr>) w) = log w @ [LogError (''Error saving data: '' @ x)]"
    "log (save_data (e\<lparr>fs := (\<lambda>_. FailAdmin x)\<rparr>) w) = log w @ [LogError (''Error saving data: '' @ x)]"
    "log (save_data (e\<lparr>fs := (\<lambda>_. FailPort x)\<rparr>) w) = log w @ [LogError (''Error saving data: '' @ x)]"
    by (simp_all add: save_data_def Let_def)
  show ?thesis
    by (simp only: admin_add_fs admin_remove_fs create_vps_fs delete_vps_fs ports_command_fs
        ports_add_user_fs monitor_vps_fs cpu_monitor_wake_fs in_memory_save_data files lines simp_thms)
qed

end
